theory Spec2Isabelle
  imports Complex_Main "HOL-Library.Log_Nat" "HOL-Library.Sublist" "HOL-Library.AList"
begin

section \<open>ELC Parking App: the client's domain model (parking_app_UPDATED.py)\<close>

text \<open>
  The enumerations \<^verbatim>\<open>UserType\<close> and \<^verbatim>\<open>ParkingStatus\<close> of the client, and the Python
  exceptions that the modelled code can raise.
\<close>

datatype UserType = STUDENT | STAFF | VISITOR

datatype ParkingStatus = AVAILABLE | LIMITED | FULL

datatype py_exception =
  ZeroDivisionError | OverflowError | KeyError | IndexError | ValueError | OSError

text \<open>
  Class \<^verbatim>\<open>ParkingLot\<close>. The fields are the private attributes \<^verbatim>\<open>_lot_id\<close>,
  \<^verbatim>\<open>_name\<close>, \<^verbatim>\<open>_total_spaces\<close>, \<^verbatim>\<open>_occupied_spaces\<close>, \<^verbatim>\<open>_permit_type\<close> and
  \<^verbatim>\<open>_drive_time\<close>, the leading underscore written \<open>p_\<close>. Python integers are
  unbounded, hence \<open>int\<close>; the permit type is the string the source compares.
\<close>

record ParkingLot =
  p_lot_id :: string
  p_name :: string
  p_total_spaces :: int
  p_occupied_spaces :: int
  p_permit_type :: string
  p_drive_time :: int

text \<open>The constructor \<^verbatim>\<open>__init__\<close>: a new lot has no occupied space.\<close>

definition ParkingLot_init :: "string \<Rightarrow> string \<Rightarrow> int \<Rightarrow> string \<Rightarrow> int \<Rightarrow> ParkingLot" where
  "ParkingLot_init lid nm tot permit drive =
     \<lparr>p_lot_id = lid, p_name = nm, p_total_spaces = tot, p_occupied_spaces = 0,
      p_permit_type = permit, p_drive_time = drive\<rparr>"

text \<open>Property \<^verbatim>\<open>available_spaces\<close>: \<^verbatim>\<open>self._total_spaces - self._occupied_spaces\<close>.\<close>

definition available_spaces :: "ParkingLot \<Rightarrow> int" where
  "available_spaces lot = p_total_spaces lot - p_occupied_spaces lot"

text \<open>
  \<^verbatim>\<open>update_occupancy\<close>:
  \<^verbatim>\<open>self._occupied_spaces = max(0, min(occupied, self._total_spaces))\<close>.
  There is no raise and no early return: the method always stores a value.
\<close>

definition update_occupancy :: "ParkingLot \<Rightarrow> int \<Rightarrow> ParkingLot" where
  "update_occupancy lot occupied =
     lot\<lparr>p_occupied_spaces := max 0 (min occupied (p_total_spaces lot))\<rparr>"

text \<open>
  \<^verbatim>\<open>can_user_park\<close>: an if/elif chain on the permit string, in the source's order, with
  \<^verbatim>\<open>return False\<close> for any other string.
\<close>

definition can_user_park :: "ParkingLot \<Rightarrow> UserType \<Rightarrow> bool" where
  "can_user_park lot user_type =
     (if p_permit_type lot = ''Open'' then True
      else if p_permit_type lot = ''Both'' then user_type \<in> set [STUDENT, STAFF]
      else if p_permit_type lot = ''Student'' then user_type = STUDENT
      else if p_permit_type lot = ''Staff'' then user_type = STAFF
      else False)"

text \<open>
  Class \<^verbatim>\<open>ParkingSystem\<close>: the list \<^verbatim>\<open>_lots\<close> and the flag \<^verbatim>\<open>_server_connected\<close>.
\<close>

record ParkingSystem =
  p_lots :: "ParkingLot list"
  p_server_connected :: bool

text \<open>\<^verbatim>\<open>_initialize_lots\<close>: the four lots near the ELC, in the order of the source.\<close>

definition initialize_lots :: "ParkingLot list" where
  "initialize_lots =
     [ParkingLot_init ''17'' ''Lot 17'' 35 ''Student'' 2,
      ParkingLot_init ''18'' ''Lot 18'' 45 ''Staff'' 1,
      ParkingLot_init ''19'' ''Lot 19'' 60 ''Both'' 2,
      ParkingLot_init ''14'' ''Lot 14'' 50 ''Open'' 3]"

definition ParkingSystem_init :: ParkingSystem where
  "ParkingSystem_init = \<lparr>p_lots = initialize_lots, p_server_connected = False\<rparr>"

text \<open>
  \<^verbatim>\<open>get_recommended_lots\<close>: the comprehension
  \<^verbatim>\<open>[lot for lot in self._lots if lot.can_user_park(user_type)]\<close>.
\<close>

definition get_recommended_lots :: "ParkingSystem \<Rightarrow> UserType \<Rightarrow> ParkingLot list" where
  "get_recommended_lots sys user_type =
     filter (\<lambda>lot. can_user_park lot user_type) (p_lots sys)"

section \<open>The server's occupancy store (parking_server.py)\<close>

text \<open>
  One entry of the dictionary \<^verbatim>\<open>PARKING_LOTS\<close>: the fields are the keys of the source's
  dictionary literal; \<^verbatim>\<open>spaces\<close> is the bitmap (\<open>False\<close> empty, \<open>True\<close> occupied).
\<close>

record lot =
  lot_id :: string
  name :: string
  total_spaces :: int
  permit_type :: string
  drive_time :: int
  walk_time :: int
  spaces :: "bool list"

text \<open>
  \<^verbatim>\<open>PARKING_LOTS\<close> is a dictionary from lot ids to entries that keeps its insertion order
  (\<^verbatim>\<open>get_all_lots\<close> iterates over it), hence an association list: \<open>map_of\<close> is the lookup
  and \<open>AList.update\<close> the in-place change of the entry of an existing key. The server's
  state is the dictionary and the content of the file \<^verbatim>\<open>parking_data.json\<close>
  (\<open>None\<close>: no file, or one that \<^verbatim>\<open>json.load\<close> cannot read).
\<close>

type_synonym store = "(string \<times> lot) list"

record server =
  PARKING_LOTS :: store
  data_file :: "store option"

definition PARKING_LOTS_init :: store where
  "PARKING_LOTS_init =
     [(''17'', \<lparr>lot_id = ''17'', name = ''Lot 17'', total_spaces = 35, permit_type = ''Student'',
               drive_time = 2, walk_time = 4, spaces = replicate 35 False\<rparr>),
      (''18'', \<lparr>lot_id = ''18'', name = ''Lot 18'', total_spaces = 45, permit_type = ''Staff'',
               drive_time = 1, walk_time = 3, spaces = replicate 45 False\<rparr>),
      (''19'', \<lparr>lot_id = ''19'', name = ''Lot 19'', total_spaces = 60, permit_type = ''Both'',
               drive_time = 2, walk_time = 5, spaces = replicate 60 False\<rparr>),
      (''14'', \<lparr>lot_id = ''14'', name = ''Lot 14'', total_spaces = 50, permit_type = ''Open'',
               drive_time = 3, walk_time = 7, spaces = replicate 50 False\<rparr>)]"

definition server_init :: "store option \<Rightarrow> server" where
  "server_init file = \<lparr>PARKING_LOTS = PARKING_LOTS_init, data_file = file\<rparr>"

text \<open>
  \<^verbatim>\<open>load_data\<close>: when the file exists and parses, its content replaces the dictionary;
  otherwise (\<^verbatim>\<open>except: pass\<close>) the dictionary stays.
\<close>

definition load_data :: "server \<Rightarrow> server" where
  "load_data s = (case data_file s of None \<Rightarrow> s | Some st \<Rightarrow> s\<lparr>PARKING_LOTS := st\<rparr>)"

text \<open>
  \<^verbatim>\<open>save_data\<close> opens the file for writing and dumps the whole dictionary. Whether the
  write succeeds is decided by the file system, so the outcome is an argument:
  \<open>Written\<close>, or \<open>WriteFailed d\<close> where \<open>d\<close> is what the file holds afterwards. The source
  has no \<^verbatim>\<open>try\<close> around the write: a failure is an \<^verbatim>\<open>OSError\<close> raised out of
  \<^verbatim>\<open>save_data\<close>.
\<close>

datatype write_outcome = Written | WriteFailed "store option"

definition save_data :: "write_outcome \<Rightarrow> server \<Rightarrow> (py_exception + unit) \<times> server" where
  "save_data w s =
     (case w of
        Written \<Rightarrow> (Inr (), s\<lparr>data_file := Some (PARKING_LOTS s)\<rparr>)
      | WriteFailed d \<Rightarrow> (Inl OSError, s\<lparr>data_file := d\<rparr>))"

text \<open>
  \<^verbatim>\<open>get_occupied_count\<close> is \<^verbatim>\<open>sum(PARKING_LOTS[lot_id]["spaces"])\<close> and
  \<^verbatim>\<open>get_available_count\<close> is the total minus it; the subscript raises \<^verbatim>\<open>KeyError\<close> on
  an unknown id.
\<close>

definition get_occupied_count :: "store \<Rightarrow> string \<Rightarrow> py_exception + int" where
  "get_occupied_count st lid =
     (case map_of st lid of
        None \<Rightarrow> Inl KeyError
      | Some l \<Rightarrow> Inr (sum_list (map of_bool (spaces l))))"

definition get_available_count :: "store \<Rightarrow> string \<Rightarrow> py_exception + int" where
  "get_available_count st lid =
     (case map_of st lid of
        None \<Rightarrow> Inl KeyError
      | Some l \<Rightarrow>
          (case get_occupied_count st lid of
             Inl e \<Rightarrow> Inl e
           | Inr occupied \<Rightarrow> Inr (total_spaces l - occupied)))"

subsection \<open>Responses\<close>

text \<open>
  The JSON bodies the endpoints build. \<open>lot_json\<close> is the dictionary that
  \<^verbatim>\<open>get_all_lots\<close> and \<^verbatim>\<open>get_lot\<close> build for one lot; \<^verbatim>\<open>datetime.now().isoformat()\<close>
  is an argument of the endpoints. A response is a body and an HTTP status code (200 where
  the source returns the body alone). \<open>NotFoundPage\<close> is not a body of the application:
  it is the page that Flask sends, with status 404, for a URL that matches no route.
\<close>

record lot_json =
  j_lot_id :: string
  j_name :: string
  j_total_spaces :: int
  j_occupied_spaces :: int
  j_available_spaces :: int
  j_permit_type :: string
  j_drive_time :: int
  j_walk_time :: int
  j_last_update :: string

datatype json_body =
    ErrorJson string
  | LotsJson "lot_json list"
  | LotJson lot_json "bool list"
  | ToggleJson bool string int bool int int
  | MessageJson bool string string
  | RandomJson bool string int int
  | NotFoundPage

type_synonym response = "json_body \<times> int"

definition lot_to_json :: "string \<Rightarrow> store \<Rightarrow> string \<Rightarrow> lot \<Rightarrow> py_exception + lot_json" where
  "lot_to_json now st lid l =
     (case get_occupied_count st lid of
        Inl e \<Rightarrow> Inl e
      | Inr occupied \<Rightarrow>
          (case get_available_count st lid of
             Inl e \<Rightarrow> Inl e
           | Inr available \<Rightarrow>
               Inr \<lparr>j_lot_id = lot_id l, j_name = name l, j_total_spaces = total_spaces l,
                    j_occupied_spaces = occupied, j_available_spaces = available,
                    j_permit_type = permit_type l, j_drive_time = drive_time l,
                    j_walk_time = walk_time l, j_last_update = now\<rparr>))"

subsection \<open>Endpoints\<close>

text \<open>\<^verbatim>\<open>GET /api/lots\<close>: the loop over \<^verbatim>\<open>PARKING_LOTS.items()\<close>, appending one body per lot.\<close>

fun all_lots_loop :: "string \<Rightarrow> store \<Rightarrow> store \<Rightarrow> py_exception + lot_json list" where
  "all_lots_loop now st [] = Inr []"
| "all_lots_loop now st ((lid, l) # items) =
     (case lot_to_json now st lid l of
        Inl e \<Rightarrow> Inl e
      | Inr j \<Rightarrow>
          (case all_lots_loop now st items of
             Inl e \<Rightarrow> Inl e
           | Inr js \<Rightarrow> Inr (j # js)))"

definition get_all_lots :: "string \<Rightarrow> server \<Rightarrow> py_exception + response" where
  "get_all_lots now s =
     (case all_lots_loop now (PARKING_LOTS s) (PARKING_LOTS s) of
        Inl e \<Rightarrow> Inl e
      | Inr lots_data \<Rightarrow> Inr (LotsJson lots_data, 200))"

text \<open>\<^verbatim>\<open>GET /api/lot/<lot_id>\<close>.\<close>

definition get_lot :: "string \<Rightarrow> server \<Rightarrow> string \<Rightarrow> py_exception + response" where
  "get_lot now s lid =
     (case map_of (PARKING_LOTS s) lid of
        None \<Rightarrow> Inr (ErrorJson ''Lot not found'', 404)
      | Some l \<Rightarrow>
          (case lot_to_json now (PARKING_LOTS s) lid l of
             Inl e \<Rightarrow> Inl e
           | Inr j \<Rightarrow> Inr (LotJson j (spaces l), 200)))"

text \<open>
  \<^verbatim>\<open>POST /api/lot/<lot_id>/toggle/<int:space_index>\<close>: the route and the function it
  decorates. \<open>space_index\<close> is the integer that the URL names. The converter \<^verbatim>\<open>int\<close>
  of the route is unsigned: it matches a string of digits only, so a URL that names a
  negative index matches no route, the function is not called and Flask answers with its
  own 404 page. The function's test \<^verbatim>\<open>space_index < 0\<close> is kept as the source has it;
  behind the converter it is never true.

  In the function, the subscript \<^verbatim>\<open>lot["spaces"][space_index]\<close> raises \<^verbatim>\<open>IndexError\<close>
  when the bitmap is shorter than \<^verbatim>\<open>total_spaces\<close> says; the entry is changed in place,
  then the file is written, then the body is built.
\<close>

definition toggle_space ::
  "write_outcome \<Rightarrow> server \<Rightarrow> string \<Rightarrow> int \<Rightarrow> (py_exception + response) \<times> server" where
  "toggle_space w s lid space_index =
     (if space_index < 0 then (Inr (NotFoundPage, 404), s)
      else
        (case map_of (PARKING_LOTS s) lid of
           None \<Rightarrow> (Inr (ErrorJson ''Lot not found'', 404), s)
         | Some l \<Rightarrow>
             if space_index < 0 \<or> space_index \<ge> total_spaces l
             then (Inr (ErrorJson ''Invalid space index'', 400), s)
             else if length (spaces l) \<le> nat space_index then (Inl IndexError, s)
             else
               let l' = l\<lparr>spaces := (spaces l)[nat space_index := \<not> spaces l ! nat space_index]\<rparr>;
                   s1 = s\<lparr>PARKING_LOTS := AList.update lid l' (PARKING_LOTS s)\<rparr>
               in (case save_data w s1 of
                     (Inl e, s2) \<Rightarrow> (Inl e, s2)
                   | (Inr _, s2) \<Rightarrow>
                       (case get_occupied_count (PARKING_LOTS s2) lid of
                          Inl e \<Rightarrow> (Inl e, s2)
                        | Inr occupied \<Rightarrow>
                            (case get_available_count (PARKING_LOTS s2) lid of
                               Inl e \<Rightarrow> (Inl e, s2)
                             | Inr available \<Rightarrow>
                                 (Inr (ToggleJson True lid space_index
                                        (spaces l' ! nat space_index) occupied available, 200),
                                  s2))))))"

text \<open>
  \<^verbatim>\<open>POST /api/lot/<lot_id>/reset\<close> and \<^verbatim>\<open>/fill\<close>: the bitmap becomes
  \<^verbatim>\<open>[False] * total_spaces\<close>, respectively \<^verbatim>\<open>[True] * total_spaces\<close> (the empty list when
  the total is not positive).
\<close>

definition reset_lot :: "write_outcome \<Rightarrow> server \<Rightarrow> string \<Rightarrow> (py_exception + response) \<times> server" where
  "reset_lot w s lid =
     (case map_of (PARKING_LOTS s) lid of
        None \<Rightarrow> (Inr (ErrorJson ''Lot not found'', 404), s)
      | Some l \<Rightarrow>
          let l' = l\<lparr>spaces := replicate (nat (total_spaces l)) False\<rparr>;
              s1 = s\<lparr>PARKING_LOTS := AList.update lid l' (PARKING_LOTS s)\<rparr>
          in (case save_data w s1 of
                (Inl e, s2) \<Rightarrow> (Inl e, s2)
              | (Inr _, s2) \<Rightarrow> (Inr (MessageJson True lid ''All spaces cleared'', 200), s2)))"

definition fill_lot :: "write_outcome \<Rightarrow> server \<Rightarrow> string \<Rightarrow> (py_exception + response) \<times> server" where
  "fill_lot w s lid =
     (case map_of (PARKING_LOTS s) lid of
        None \<Rightarrow> (Inr (ErrorJson ''Lot not found'', 404), s)
      | Some l \<Rightarrow>
          let l' = l\<lparr>spaces := replicate (nat (total_spaces l)) True\<rparr>;
              s1 = s\<lparr>PARKING_LOTS := AList.update lid l' (PARKING_LOTS s)\<rparr>
          in (case save_data w s1 of
                (Inl e, s2) \<Rightarrow> (Inl e, s2)
              | (Inr _, s2) \<Rightarrow> (Inr (MessageJson True lid ''All spaces filled'', 200), s2)))"

subsection \<open>Randomised occupancy\<close>

text \<open>
  The module \<^verbatim>\<open>random\<close> is an argument: \<open>randint rng a b\<close> is what
  \<^verbatim>\<open>random.randint(a, b)\<close> returns and \<open>sample rng n k\<close> what
  \<^verbatim>\<open>random.sample(range(n), k)\<close> returns when it returns. \<open>random_contract\<close> is what the
  library promises of them: a drawn integer lies in its range, and a sample of \<open>k\<close> out of
  \<open>range(n)\<close> is a list of \<open>k\<close> distinct members of the range.
\<close>

record rng =
  randint :: "int \<Rightarrow> int \<Rightarrow> int"
  sample :: "int \<Rightarrow> int \<Rightarrow> nat list"

definition random_contract :: "rng \<Rightarrow> bool" where
  "random_contract r \<longleftrightarrow>
     (\<forall>a b. a \<le> b \<longrightarrow> a \<le> randint r a b \<and> randint r a b \<le> b)
     \<and> (\<forall>n k. 0 \<le> k \<and> k \<le> n \<longrightarrow>
           distinct (sample r n k) \<and> length (sample r n k) = nat k
           \<and> (\<forall>i \<in> set (sample r n k). i < nat n))"

text \<open>
  \<^verbatim>\<open>random.sample\<close> raises \<^verbatim>\<open>ValueError\<close> when the sample is larger than the population
  or negative.
\<close>

definition random_sample :: "rng \<Rightarrow> int \<Rightarrow> int \<Rightarrow> py_exception + nat list" where
  "random_sample r n k =
     (if k < 0 \<or> int (nat n) < k then Inl ValueError else Inr (sample r n k))"

text \<open>The if/elif chain of \<^verbatim>\<open>randomize_lot\<close> that draws the occupied count.\<close>

definition draw_occupied_count :: "rng \<Rightarrow> string \<Rightarrow> int" where
  "draw_occupied_count r lid =
     (if lid = ''17'' then randint r 28 35
      else if lid = ''18'' then randint r 40 45
      else if lid = ''19'' then randint r 45 60
      else randint r 15 40)"

text \<open>
  The loop \<^verbatim>\<open>for idx in occupied_indices: lot["spaces"][idx] = True\<close>. The assignment
  raises \<^verbatim>\<open>IndexError\<close> outside the list; the list is changed in place, so the marks
  made before the exception stay.
\<close>

fun mark_occupied :: "nat list \<Rightarrow> bool list \<Rightarrow> (py_exception + unit) \<times> bool list" where
  "mark_occupied [] sp = (Inr (), sp)"
| "mark_occupied (idx # idxs) sp =
     (if idx < length sp then mark_occupied idxs (sp[idx := True]) else (Inl IndexError, sp))"

text \<open>
  \<^verbatim>\<open>POST /api/lot/<lot_id>/random\<close>. The bitmap is cleared before the sample is drawn,
  so an exception of \<^verbatim>\<open>random.sample\<close> leaves it cleared and unsaved.
\<close>

definition randomize_lot ::
  "rng \<Rightarrow> write_outcome \<Rightarrow> server \<Rightarrow> string \<Rightarrow> (py_exception + response) \<times> server" where
  "randomize_lot r w s lid =
     (case map_of (PARKING_LOTS s) lid of
        None \<Rightarrow> (Inr (ErrorJson ''Lot not found'', 404), s)
      | Some l \<Rightarrow>
          let occupied_count = draw_occupied_count r lid;
              cleared = replicate (nat (total_spaces l)) False;
              s0 = s\<lparr>PARKING_LOTS := AList.update lid (l\<lparr>spaces := cleared\<rparr>) (PARKING_LOTS s)\<rparr>
          in (case random_sample r (total_spaces l) occupied_count of
                Inl e \<Rightarrow> (Inl e, s0)
              | Inr occupied_indices \<Rightarrow>
                  (case mark_occupied occupied_indices cleared of
                     (marked, sp) \<Rightarrow>
                       let s1 = s\<lparr>PARKING_LOTS :=
                                   AList.update lid (l\<lparr>spaces := sp\<rparr>) (PARKING_LOTS s)\<rparr>
                       in (case marked of
                             Inl e \<Rightarrow> (Inl e, s1)
                           | Inr _ \<Rightarrow>
                               (case save_data w s1 of
                                  (Inl e, s2) \<Rightarrow> (Inl e, s2)
                                | (Inr _, s2) \<Rightarrow>
                                    (Inr (RandomJson True lid occupied_count
                                           (total_spaces l - occupied_count), 200), s2))))))"

subsection \<open>Dispatch of the mutating endpoints\<close>

text \<open>
  The four \<^verbatim>\<open>POST\<close> routes of the application, and the endpoint each request is routed
  to. \<open>Toggle lid i\<close> is the request \<^verbatim>\<open>POST /api/lot/lid/toggle/i\<close> with \<open>i\<close> written
  in decimal; the route's converter is the first test of \<open>toggle_space\<close>, so a request
  that names a negative index gets Flask's 404 page and reaches no function.
\<close>

datatype post_request = Toggle string int | Reset string | Fill string | Random string

definition handle_post ::
  "rng \<Rightarrow> write_outcome \<Rightarrow> server \<Rightarrow> post_request \<Rightarrow> (py_exception + response) \<times> server" where
  "handle_post r w s req =
     (case req of
        Toggle lid space_index \<Rightarrow> toggle_space w s lid space_index
      | Reset lid \<Rightarrow> reset_lot w s lid
      | Fill lid \<Rightarrow> fill_lot w s lid
      | Random lid \<Rightarrow> randomize_lot r w s lid)"

text \<open>
  The part of the dictionary that is not occupancy: every entry with its bitmap blanked.
  Two dictionaries with the same \<open>fixed_fields\<close> have the same keys in the same order and,
  per key, the same id, name, capacity, permit type, drive time and walk time.
\<close>

definition fixed_fields :: "store \<Rightarrow> store" where
  "fixed_fields st = map (\<lambda>(lid, l). (lid, l\<lparr>spaces := []\<rparr>)) st"

section \<open>The client's synchronizer (parking_app_UPDATED.py)\<close>

text \<open>
  What \<^verbatim>\<open>requests.get\<close> and \<^verbatim>\<open>response.json()\<close> deliver is an argument of the model.
  \<open>RequestFailed\<close>: the call raises (timeout, connection refused). \<open>Response c j\<close>: a
  response with status code \<open>c\<close>, whose body parses to the list \<open>j\<close> of entries, or does
  not parse (\<open>None\<close>: \<^verbatim>\<open>response.json()\<close> raises). Of an entry the code reads the keys
  \<^verbatim>\<open>'lot_id'\<close> and \<^verbatim>\<open>'occupied_spaces'\<close>. \<open>None\<close> is a read that raises: the key is
  missing or the entry is no dictionary (\<^verbatim>\<open>KeyError\<close>, \<^verbatim>\<open>TypeError\<close>) or, for the
  count, the value is one that \<^verbatim>\<open>min\<close> cannot compare with an integer. The bare
  \<^verbatim>\<open>except\<close> of \<^verbatim>\<open>refresh_data\<close> treats all exceptions alike.
\<close>

record lot_data =
  d_lot_id :: "string option"
  d_occupied_spaces :: "int option"

datatype fetch = RequestFailed | Response int "lot_data list option"

text \<open>
  \<^verbatim>\<open>get_lot_by_id\<close> returns the first lot with the id, or \<^verbatim>\<open>None\<close>. The lot it returns
  is the object in the list, so \<^verbatim>\<open>lot.update_occupancy(n)\<close> on it changes the list:
  \<open>update_lot_by_id\<close>.
\<close>

fun get_lot_by_id :: "ParkingLot list \<Rightarrow> string \<Rightarrow> ParkingLot option" where
  "get_lot_by_id [] lid = None"
| "get_lot_by_id (lot # lots) lid =
     (if p_lot_id lot = lid then Some lot else get_lot_by_id lots lid)"

fun update_lot_by_id :: "ParkingLot list \<Rightarrow> string \<Rightarrow> int \<Rightarrow> ParkingLot list" where
  "update_lot_by_id [] lid occupied = []"
| "update_lot_by_id (lot # lots) lid occupied =
     (if p_lot_id lot = lid then update_occupancy lot occupied # lots
      else lot # update_lot_by_id lots lid occupied)"

text \<open>
  The loop \<^verbatim>\<open>for lot_data in lots_data\<close> of \<^verbatim>\<open>refresh_data\<close>. An entry for an unknown
  id is skipped (\<^verbatim>\<open>if lot:\<close>) before its count is read. An exception leaves the lots
  updated so far as they are.
\<close>

fun apply_lots_data ::
  "lot_data list \<Rightarrow> ParkingLot list \<Rightarrow> (py_exception + unit) \<times> ParkingLot list" where
  "apply_lots_data [] lots = (Inr (), lots)"
| "apply_lots_data (lot_data # rest) lots =
     (case d_lot_id lot_data of
        None \<Rightarrow> (Inl KeyError, lots)
      | Some lid \<Rightarrow>
          (case get_lot_by_id lots lid of
             None \<Rightarrow> apply_lots_data rest lots
           | Some lot \<Rightarrow>
               (case d_occupied_spaces lot_data of
                  None \<Rightarrow> (Inl KeyError, lots)
                | Some occupied \<Rightarrow> apply_lots_data rest (update_lot_by_id lots lid occupied))))"

text \<open>
  The \<^verbatim>\<open>except\<close> branch: every lot gets a drawn count, by its id. (The list of lots is
  the catalog, whose ids differ, so each range is drawn from once in a refresh.)
\<close>

definition simulate_lot :: "rng \<Rightarrow> ParkingLot \<Rightarrow> ParkingLot" where
  "simulate_lot r lot =
     (if p_lot_id lot = ''17'' then update_occupancy lot (randint r 28 35)
      else if p_lot_id lot = ''18'' then update_occupancy lot (randint r 40 45)
      else if p_lot_id lot = ''19'' then update_occupancy lot (randint r 45 60)
      else update_occupancy lot (randint r 15 40))"

definition simulate :: "rng \<Rightarrow> ParkingLot list \<Rightarrow> bool option \<times> ParkingSystem" where
  "simulate r lots =
     (Some False, \<lparr>p_lots = map (simulate_lot r) lots, p_server_connected = False\<rparr>)"

text \<open>
  \<^verbatim>\<open>refresh_data\<close>. The result is what the method returns: \<open>Some True\<close>, \<open>Some False\<close>,
  or \<open>None\<close> for Python's \<^verbatim>\<open>None\<close>, which is what falling off the end of the
  \<^verbatim>\<open>try\<close> block returns when the status code is not 200: the \<^verbatim>\<open>if\<close> has no
  \<^verbatim>\<open>else\<close>, and nothing is raised, so neither branch runs.
\<close>

definition refresh_data :: "rng \<Rightarrow> fetch \<Rightarrow> ParkingSystem \<Rightarrow> bool option \<times> ParkingSystem" where
  "refresh_data r f sys =
     (case f of
        RequestFailed \<Rightarrow> simulate r (p_lots sys)
      | Response status_code json \<Rightarrow>
          if status_code = 200 then
            (case json of
               None \<Rightarrow> simulate r (p_lots sys)
             | Some lots_data \<Rightarrow>
                 (case apply_lots_data lots_data (p_lots sys) of
                    (Inl e, lots) \<Rightarrow> simulate r lots
                  | (Inr _, lots) \<Rightarrow> (Some True, \<lparr>p_lots = lots, p_server_connected = True\<rparr>)))
          else (None, sys))"

text \<open>
  \<^verbatim>\<open>check_server_connection\<close>, the sibling of \<^verbatim>\<open>refresh_data\<close>: here a status other
  than 200 does clear the flag (\<^verbatim>\<open>self._server_connected = response.status_code == 200\<close>).
\<close>

definition check_server_connection :: "fetch \<Rightarrow> ParkingSystem \<Rightarrow> bool \<times> ParkingSystem" where
  "check_server_connection f sys =
     (case f of
        RequestFailed \<Rightarrow> (False, sys\<lparr>p_server_connected := False\<rparr>)
      | Response status_code json \<Rightarrow>
          (status_code = 200, sys\<lparr>p_server_connected := (status_code = 200)\<rparr>))"

definition is_server_connected :: "ParkingSystem \<Rightarrow> bool" where
  "is_server_connected sys = p_server_connected sys"

text \<open>What the client reads of the body that the server's \<open>get_all_lots\<close> sends.\<close>

definition lots_data_of :: "lot_json list \<Rightarrow> lot_data list" where
  "lots_data_of js =
     map (\<lambda>j. \<lparr>d_lot_id = Some (j_lot_id j), d_occupied_spaces = Some (j_occupied_spaces j)\<rparr>) js"

section \<open>Float division and the status classifier (parking_app_UPDATED.py)\<close>

text \<open>
  \<^verbatim>\<open>get_status\<close> divides two integers with \<^verbatim>\<open>/\<close> and compares the quotient with the
  literal \<^verbatim>\<open>0.3\<close>. Python's \<^verbatim>\<open>/\<close> on integers is true division: its value is the
  binary64 float nearest to the exact quotient, ties going to the even significand. A
  finite float is here the rational number it denotes, and comparing floats is comparing
  these rationals.

  \<open>round_half_even\<close> rounds a rational to the nearest integer, ties to the even one.
\<close>

definition round_half_even :: "rat \<Rightarrow> int" where
  "round_half_even x =
     (let f = \<lfloor>x\<rfloor>; d = x - of_int f
      in if d < 1 / 2 then f else if 1 / 2 < d then f + 1 else if even f then f else f + 1)"

text \<open>
  For \<open>x > 0\<close>, \<open>floor_log2 x\<close> is the exponent of the leading bit of \<open>x\<close>: the \<open>e\<close> with
  \<open>2 powi e \<le> x < 2 powi (e + 1)\<close>. It is computed from the bit lengths of numerator and
  denominator, which fix it up to one.
\<close>

definition floor_log2 :: "rat \<Rightarrow> int" where
  "floor_log2 x =
     (case quotient_of x of
        (n, d) \<Rightarrow> let k = bitlen n - bitlen d in if 2 powi k \<le> x then k else k - 1)"

text \<open>
  The binary64 float nearest to \<open>x\<close>: a normal float has 53 significant bits, so its last
  bit is worth \<open>2 powi (e - 52)\<close>; the exponent of the leading bit is at least \<open>-1022\<close>,
  below which floats are the multiples of \<open>2 powi (- 1074)\<close> (and a quotient below half of
  that becomes 0). The result is not bounded here; \<open>true_divide\<close> checks the range.
\<close>

definition round_double :: "rat \<Rightarrow> rat" where
  "round_double x =
     (if x = 0 then 0
      else let e = max (floor_log2 \<bar>x\<bar>) (- 1022); ulp = 2 powi (e - 52)
           in sgn x * of_int (round_half_even (\<bar>x\<bar> / ulp)) * ulp)"

text \<open>
  \<^verbatim>\<open>a / b\<close> on integers: \<^verbatim>\<open>ZeroDivisionError\<close> for a zero divisor, \<^verbatim>\<open>OverflowError\<close>
  when the rounded quotient is beyond the largest float, that is, reaches \<open>2 powi 1024\<close>.
\<close>

definition true_divide :: "int \<Rightarrow> int \<Rightarrow> py_exception + rat" where
  "true_divide a b =
     (if b = 0 then Inl ZeroDivisionError
      else let q = round_double (of_int a / of_int b)
           in if 2 powi 1024 \<le> \<bar>q\<bar> then Inl OverflowError else Inr q)"

text \<open>
  \<^verbatim>\<open>get_status\<close>. The literal \<^verbatim>\<open>0.3\<close> is the float nearest to \<open>3/10\<close>; the literal
  \<^verbatim>\<open>0\<close> is exact.
\<close>

definition get_status :: "ParkingLot \<Rightarrow> py_exception + ParkingStatus" where
  "get_status lot =
     (case true_divide (available_spaces lot) (p_total_spaces lot) of
        Inl e \<Rightarrow> Inl e
      | Inr availability_ratio \<Rightarrow>
          Inr (if round_double (3 / 10) \<le> availability_ratio then AVAILABLE
               else if 0 < availability_ratio then LIMITED
               else FULL))"

section \<open>Facts about the store and the endpoints\<close>

lemma occupied_known:
  "map_of st lid = Some l \<Longrightarrow> get_occupied_count st lid = Inr (sum_list (map of_bool (spaces l)))"
  by (simp add: get_occupied_count_def)

lemma available_known:
  "map_of st lid = Some l \<Longrightarrow>
     get_available_count st lid = Inr (total_spaces l - sum_list (map of_bool (spaces l)))"
  by (simp add: get_available_count_def get_occupied_count_def)

lemma update_same: "map_of al k = Some v \<Longrightarrow> AList.update k v al = al"
  by (induction al) auto

lemma update_twice: "AList.update k v (AList.update k v' al) = AList.update k v al"
  by (induction al) auto

lemma map_of_update: "map_of (AList.update k v al) = (map_of al)(k \<mapsto> v)"
  by (simp add: update_conv')

lemma save_data_store: "PARKING_LOTS (snd (save_data w s)) = PARKING_LOTS s"
  by (cases w) (simp_all add: save_data_def)

text \<open>What each endpoint does to the dictionary, whatever the outcome of the write.\<close>

lemma toggle_space_store:
  "PARKING_LOTS (snd (toggle_space w s lid i)) =
     (case map_of (PARKING_LOTS s) lid of
        None \<Rightarrow> PARKING_LOTS s
      | Some l \<Rightarrow>
          if i < 0 \<or> total_spaces l \<le> i \<or> length (spaces l) \<le> nat i then PARKING_LOTS s
          else AList.update lid (l\<lparr>spaces := (spaces l)[nat i := \<not> spaces l ! nat i]\<rparr>)
                 (PARKING_LOTS s))"
  by (cases w)
    (auto simp add: toggle_space_def save_data_def Let_def occupied_known available_known
      map_of_update split: option.splits)

lemma reset_lot_store:
  "PARKING_LOTS (snd (reset_lot w s lid)) =
     (case map_of (PARKING_LOTS s) lid of
        None \<Rightarrow> PARKING_LOTS s
      | Some l \<Rightarrow>
          AList.update lid (l\<lparr>spaces := replicate (nat (total_spaces l)) False\<rparr>) (PARKING_LOTS s))"
  by (cases w) (auto simp add: reset_lot_def save_data_def Let_def split: option.splits)

lemma fill_lot_store:
  "PARKING_LOTS (snd (fill_lot w s lid)) =
     (case map_of (PARKING_LOTS s) lid of
        None \<Rightarrow> PARKING_LOTS s
      | Some l \<Rightarrow>
          AList.update lid (l\<lparr>spaces := replicate (nat (total_spaces l)) True\<rparr>) (PARKING_LOTS s))"
  by (cases w) (auto simp add: fill_lot_def save_data_def Let_def split: option.splits)

lemma randomize_lot_store:
  "\<exists>sp. PARKING_LOTS (snd (randomize_lot r w s lid)) =
     (case map_of (PARKING_LOTS s) lid of
        None \<Rightarrow> PARKING_LOTS s
      | Some l \<Rightarrow> AList.update lid (l\<lparr>spaces := sp\<rparr>) (PARKING_LOTS s))"
  by (cases w)
    (auto simp add: randomize_lot_def save_data_def Let_def
      split: option.splits sum.splits prod.splits)

lemma fixed_fields_update:
  "map_of st lid = Some l \<Longrightarrow> fixed_fields (AList.update lid (l\<lparr>spaces := sp\<rparr>) st) = fixed_fields st"
  by (induction st) (auto simp add: fixed_fields_def)

lemma toggle_twice_store:
  "PARKING_LOTS (snd (toggle_space w2 (snd (toggle_space w1 s lid i)) lid i)) = PARKING_LOTS s"
proof (cases "map_of (PARKING_LOTS s) lid")
  case None
  then show ?thesis by (simp add: toggle_space_store)
next
  case (Some l)
  show ?thesis
  proof (cases "i < 0 \<or> total_spaces l \<le> i \<or> length (spaces l) \<le> nat i")
    case True
    with Some show ?thesis by (simp add: toggle_space_store)
  next
    case False
    let ?l' = "l\<lparr>spaces := (spaces l)[nat i := \<not> spaces l ! nat i]\<rparr>"
    from Some False have once:
      "PARKING_LOTS (snd (toggle_space w1 s lid i)) = AList.update lid ?l' (PARKING_LOTS s)"
      by (simp add: toggle_space_store)
    have restored: "?l'\<lparr>spaces := (spaces ?l')[nat i := \<not> spaces ?l' ! nat i]\<rparr> = l"
      using False by simp
    show ?thesis
      using False restored Some
      by (simp add: toggle_space_store [of w2] once map_of_update update_twice update_same)
  qed
qed

lemma lot_to_json_known:
  "map_of st lid = Some l' \<Longrightarrow>
     lot_to_json now st lid l =
       Inr \<lparr>j_lot_id = lot_id l, j_name = name l, j_total_spaces = total_spaces l,
            j_occupied_spaces = sum_list (map of_bool (spaces l')),
            j_available_spaces = total_spaces l' - sum_list (map of_bool (spaces l')),
            j_permit_type = permit_type l, j_drive_time = drive_time l,
            j_walk_time = walk_time l, j_last_update = now\<rparr>"
  by (simp add: lot_to_json_def occupied_known available_known)

lemma all_lots_loop_succeeds:
  "fst ` set items \<subseteq> fst ` set st \<Longrightarrow>
     \<exists>js. all_lots_loop now st items = Inr js \<and> map j_lot_id js = map (lot_id \<circ> snd) items"
proof (induction items)
  case Nil
  then show ?case by simp
next
  case (Cons it items)
  obtain lid l where it: "it = (lid, l)" by (cases it)
  from Cons.prems it have "lid \<in> fst ` set st" by simp
  then obtain l' where l': "map_of st lid = Some l'"
    by (metis domD dom_map_of_conv_image_fst)
  from Cons obtain js where js: "all_lots_loop now st items = Inr js"
      "map j_lot_id js = map (lot_id \<circ> snd) items"
    by auto
  show ?case
    using it js by (simp add: lot_to_json_known [OF l'])
qed

text \<open>The marking loop of \<open>randomize_lot\<close>, and counting a bitmap.\<close>

lemma mark_occupied_marks:
  "\<forall>i \<in> set idxs. i < length sp \<Longrightarrow>
     \<exists>sp'. mark_occupied idxs sp = (Inr (), sp') \<and> length sp' = length sp
        \<and> (\<forall>j < length sp. sp' ! j = (sp ! j \<or> j \<in> set idxs))"
proof (induction idxs arbitrary: sp)
  case Nil
  then show ?case by simp
next
  case (Cons idx idxs)
  from Cons.prems have "\<forall>i \<in> set idxs. i < length (sp[idx := True])" by simp
  from Cons.IH [OF this] obtain sp' where sp':
    "mark_occupied idxs (sp[idx := True]) = (Inr (), sp')"
    "length sp' = length sp"
    "\<forall>j < length sp. sp' ! j = ((sp[idx := True]) ! j \<or> j \<in> set idxs)"
    by auto
  from Cons.prems have "idx < length sp" by simp
  with sp' show ?case
    by (auto simp add: nth_list_update)
qed

lemma sum_of_bool_filter: "sum_list (map of_bool xs) = int (length (filter (\<lambda>b. b) xs))"
  by (induction xs) simp_all

lemma sum_of_bool_card: "sum_list (map of_bool xs) = int (card {j. j < length xs \<and> xs ! j})"
  by (simp add: sum_of_bool_filter length_filter_conv_card)

lemma mark_occupied_count:
  assumes "distinct idxs" and "\<forall>i \<in> set idxs. i < n"
  shows "\<exists>sp. mark_occupied idxs (replicate n False) = (Inr (), sp) \<and> length sp = n
           \<and> {j. j < length sp \<and> sp ! j} = set idxs
           \<and> sum_list (map of_bool sp) = int (length idxs)"
proof -
  from assms(2) have "\<forall>i \<in> set idxs. i < length (replicate n False)" by simp
  from mark_occupied_marks [OF this] obtain sp where sp:
    "mark_occupied idxs (replicate n False) = (Inr (), sp)" "length sp = n"
    "\<forall>j < n. sp ! j = (replicate n False ! j \<or> j \<in> set idxs)"
    by auto
  from sp(2,3) assms(2) have marked: "{j. j < length sp \<and> sp ! j} = set idxs"
    by auto
  have "sum_list (map of_bool sp) = int (card (set idxs))"
    by (simp add: sum_of_bool_card marked)
  with assms(1) have "sum_list (map of_bool sp) = int (length idxs)"
    by (simp add: distinct_card)
  with sp marked show ?thesis by blast
qed

text \<open>The write of each mutating endpoint, and what the reads depend on.\<close>

lemma toggle_space_write:
  "fst (toggle_space Written s lid i) = Inr (body, 200) \<Longrightarrow>
     data_file (snd (toggle_space Written s lid i)) = Some (PARKING_LOTS (snd (toggle_space Written s lid i)))
     \<and> toggle_space (WriteFailed d) s lid i
         = (Inl OSError, (snd (toggle_space Written s lid i))\<lparr>data_file := d\<rparr>)"
  by (auto simp add: toggle_space_def save_data_def Let_def occupied_known available_known
      map_of_update split: option.splits if_splits)

lemma reset_lot_write:
  "fst (reset_lot Written s lid) = Inr (body, 200) \<Longrightarrow>
     data_file (snd (reset_lot Written s lid)) = Some (PARKING_LOTS (snd (reset_lot Written s lid)))
     \<and> reset_lot (WriteFailed d) s lid = (Inl OSError, (snd (reset_lot Written s lid))\<lparr>data_file := d\<rparr>)"
  by (auto simp add: reset_lot_def save_data_def Let_def split: option.splits)

lemma fill_lot_write:
  "fst (fill_lot Written s lid) = Inr (body, 200) \<Longrightarrow>
     data_file (snd (fill_lot Written s lid)) = Some (PARKING_LOTS (snd (fill_lot Written s lid)))
     \<and> fill_lot (WriteFailed d) s lid = (Inl OSError, (snd (fill_lot Written s lid))\<lparr>data_file := d\<rparr>)"
  by (auto simp add: fill_lot_def save_data_def Let_def split: option.splits)

lemma randomize_lot_write:
  "fst (randomize_lot r Written s lid) = Inr (body, 200) \<Longrightarrow>
     data_file (snd (randomize_lot r Written s lid))
       = Some (PARKING_LOTS (snd (randomize_lot r Written s lid)))
     \<and> randomize_lot r (WriteFailed d) s lid
         = (Inl OSError, (snd (randomize_lot r Written s lid))\<lparr>data_file := d\<rparr>)"
  by (auto simp add: randomize_lot_def save_data_def Let_def
      split: option.splits sum.splits prod.splits)

lemma get_lot_memory: "get_lot now (s\<lparr>data_file := d\<rparr>) lid = get_lot now s lid"
  by (simp add: get_lot_def split: option.splits)

lemma get_all_lots_memory: "get_all_lots now (s\<lparr>data_file := d\<rparr>) = get_all_lots now s"
  by (simp add: get_all_lots_def)

text \<open>
  What the endpoints answer to an id that is no key of the dictionary and to an index that
  is out of range, and that the reads of known ids succeed. A negative index is answered
  by the router, before \<open>toggle_space\<close> looks at the lot.
\<close>

lemma endpoint_errors:
  "(map_of (PARKING_LOTS s) lid = None \<longrightarrow>
      get_lot now s lid = Inr (ErrorJson ''Lot not found'', 404)
      \<and> (0 \<le> i \<longrightarrow> toggle_space w s lid i = (Inr (ErrorJson ''Lot not found'', 404), s))
      \<and> reset_lot w s lid = (Inr (ErrorJson ''Lot not found'', 404), s)
      \<and> fill_lot w s lid = (Inr (ErrorJson ''Lot not found'', 404), s)
      \<and> randomize_lot r w s lid = (Inr (ErrorJson ''Lot not found'', 404), s))
   \<and> (map_of (PARKING_LOTS s) lid = Some l \<and> 0 \<le> i \<and> total_spaces l \<le> i \<longrightarrow>
      toggle_space w s lid i = (Inr (ErrorJson ''Invalid space index'', 400), s))
   \<and> (i < 0 \<longrightarrow> toggle_space w s lid i = (Inr (NotFoundPage, 404), s))
   \<and> (map_of (PARKING_LOTS s) lid = Some l \<longrightarrow>
      get_lot now s lid =
        Inr (LotJson
              \<lparr>j_lot_id = lot_id l, j_name = name l, j_total_spaces = total_spaces l,
               j_occupied_spaces = sum_list (map of_bool (spaces l)),
               j_available_spaces = total_spaces l - sum_list (map of_bool (spaces l)),
               j_permit_type = permit_type l, j_drive_time = drive_time l,
               j_walk_time = walk_time l, j_last_update = now\<rparr>
              (spaces l), 200))
   \<and> (\<exists>js. get_all_lots now s = Inr (LotsJson js, 200)
            \<and> map j_lot_id js = map (lot_id \<circ> snd) (PARKING_LOTS s))"
proof -
  have unknown: "map_of (PARKING_LOTS s) lid = None \<longrightarrow>
      get_lot now s lid = Inr (ErrorJson ''Lot not found'', 404)
      \<and> (0 \<le> i \<longrightarrow> toggle_space w s lid i = (Inr (ErrorJson ''Lot not found'', 404), s))
      \<and> reset_lot w s lid = (Inr (ErrorJson ''Lot not found'', 404), s)
      \<and> fill_lot w s lid = (Inr (ErrorJson ''Lot not found'', 404), s)
      \<and> randomize_lot r w s lid = (Inr (ErrorJson ''Lot not found'', 404), s)"
    by (simp add: get_lot_def toggle_space_def reset_lot_def fill_lot_def randomize_lot_def)
  have range: "map_of (PARKING_LOTS s) lid = Some l \<and> 0 \<le> i \<and> total_spaces l \<le> i \<longrightarrow>
      toggle_space w s lid i = (Inr (ErrorJson ''Invalid space index'', 400), s)"
    by (auto simp add: toggle_space_def)
  have negative: "i < 0 \<longrightarrow> toggle_space w s lid i = (Inr (NotFoundPage, 404), s)"
    by (simp add: toggle_space_def)
  have known: "map_of (PARKING_LOTS s) lid = Some l \<longrightarrow>
      get_lot now s lid =
        Inr (LotJson
              \<lparr>j_lot_id = lot_id l, j_name = name l, j_total_spaces = total_spaces l,
               j_occupied_spaces = sum_list (map of_bool (spaces l)),
               j_available_spaces = total_spaces l - sum_list (map of_bool (spaces l)),
               j_permit_type = permit_type l, j_drive_time = drive_time l,
               j_walk_time = walk_time l, j_last_update = now\<rparr>
              (spaces l), 200)"
    by (simp add: get_lot_def lot_to_json_known)
  have all: "\<exists>js. get_all_lots now s = Inr (LotsJson js, 200)
            \<and> map j_lot_id js = map (lot_id \<circ> snd) (PARKING_LOTS s)"
    using all_lots_loop_succeeds [of "PARKING_LOTS s" "PARKING_LOTS s" now]
    by (auto simp add: get_all_lots_def)
  from unknown range negative known all show ?thesis by blast
qed

section \<open>Facts about the synchronizer\<close>

lemma update_lot_by_id_frame:
  "map (\<lambda>lot. lot\<lparr>p_occupied_spaces := 0\<rparr>) (update_lot_by_id lots lid n)
     = map (\<lambda>lot. lot\<lparr>p_occupied_spaces := 0\<rparr>) lots"
  by (induction lots) (simp_all add: update_occupancy_def)

lemma apply_lots_data_frame:
  "map (\<lambda>lot. lot\<lparr>p_occupied_spaces := 0\<rparr>) (snd (apply_lots_data lots_data lots))
     = map (\<lambda>lot. lot\<lparr>p_occupied_spaces := 0\<rparr>) lots"
  by (induction lots_data lots rule: apply_lots_data.induct)
    (auto simp add: update_lot_by_id_frame split: option.splits)

lemma simulate_lot_ignores_count:
  "simulate_lot r (lot\<lparr>p_occupied_spaces := n\<rparr>) = simulate_lot r (lot\<lparr>p_occupied_spaces := 0\<rparr>)"
  by (simp add: simulate_lot_def update_occupancy_def)

lemma simulate_lot_frame:
  "map (\<lambda>lot. lot\<lparr>p_occupied_spaces := 0\<rparr>) lots' = map (\<lambda>lot. lot\<lparr>p_occupied_spaces := 0\<rparr>) lots
   \<Longrightarrow> map (simulate_lot r) lots' = map (simulate_lot r) lots"
proof (induction lots' arbitrary: lots)
  case Nil
  then show ?case by simp
next
  case (Cons a lots')
  then obtain b bs where lots: "lots = b # bs" by (cases lots) auto
  with Cons.prems have same: "a\<lparr>p_occupied_spaces := 0\<rparr> = b\<lparr>p_occupied_spaces := 0\<rparr>"
    and rest: "map (\<lambda>lot. lot\<lparr>p_occupied_spaces := 0\<rparr>) lots' = map (\<lambda>lot. lot\<lparr>p_occupied_spaces := 0\<rparr>) bs"
    by simp_all
  have "simulate_lot r a = simulate_lot r (a\<lparr>p_occupied_spaces := 0\<rparr>)"
    using simulate_lot_ignores_count [where r = r and lot = a and n = "p_occupied_spaces a"] by simp
  also have "\<dots> = simulate_lot r (b\<lparr>p_occupied_spaces := 0\<rparr>)" using same by simp
  also have "\<dots> = simulate_lot r b"
    using simulate_lot_ignores_count [where r = r and lot = b and n = "p_occupied_spaces b"] by simp
  finally show ?case using Cons.IH [OF rest] lots by simp
qed

text \<open>Every way in which \<open>refresh_data\<close> ends.\<close>

lemma refresh_data_cases:
  "refresh_data r f sys =
     (case f of
        RequestFailed \<Rightarrow> simulate r (p_lots sys)
      | Response status_code json \<Rightarrow>
          if status_code \<noteq> 200 then (None, sys)
          else (case json of
                  None \<Rightarrow> simulate r (p_lots sys)
                | Some lots_data \<Rightarrow>
                    (case fst (apply_lots_data lots_data (p_lots sys)) of
                       Inl e \<Rightarrow> simulate r (p_lots sys)
                     | Inr u \<Rightarrow>
                         (Some True, \<lparr>p_lots = snd (apply_lots_data lots_data (p_lots sys)),
                                      p_server_connected = True\<rparr>))))"
proof -
  have "simulate r lots' = simulate r (p_lots sys)"
    if "apply_lots_data lots_data (p_lots sys) = (res, lots')" for lots_data res lots'
    using simulate_lot_frame [OF apply_lots_data_frame [of lots_data "p_lots sys"], of r] that
    by (simp add: simulate_def)
  then show ?thesis
    by (auto simp add: refresh_data_def split: fetch.splits option.splits prod.splits sum.splits)
qed

text \<open>
  The fallback on the catalog: when the request raises or the body is malformed, the client
  is disconnected and every count is the one drawn from the lot's range.
\<close>

lemma refresh_data_fallback:
  assumes "random_contract r"
    and "f = RequestFailed \<or> f = Response 200 None"
    and "map p_lot_id (p_lots sys) = [''17'', ''18'', ''19'', ''14'']"
    and "map p_total_spaces (p_lots sys) = [35, 45, 60, 50]"
  shows "fst (refresh_data r f sys) = Some False
    \<and> is_server_connected (snd (refresh_data r f sys)) = False
    \<and> map p_lot_id (p_lots (snd (refresh_data r f sys))) = [''17'', ''18'', ''19'', ''14'']
    \<and> map p_occupied_spaces (p_lots (snd (refresh_data r f sys)))
        = [randint r 28 35, randint r 40 45, randint r 45 60, randint r 15 40]
    \<and> 28 \<le> randint r 28 35 \<and> randint r 28 35 \<le> 35
    \<and> 40 \<le> randint r 40 45 \<and> randint r 40 45 \<le> 45
    \<and> 45 \<le> randint r 45 60 \<and> randint r 45 60 \<le> 60
    \<and> 15 \<le> randint r 15 40 \<and> randint r 15 40 \<le> 40"
proof -
  from assms(1) have ranges:
    "28 \<le> randint r 28 35 \<and> randint r 28 35 \<le> 35"
    "40 \<le> randint r 40 45 \<and> randint r 40 45 \<le> 45"
    "45 \<le> randint r 45 60 \<and> randint r 45 60 \<le> 60"
    "15 \<le> randint r 15 40 \<and> randint r 15 40 \<le> 40"
    by (simp_all add: random_contract_def)
  from assms(3,4) obtain a b c d where lots: "p_lots sys = [a, b, c, d]"
    "p_lot_id a = ''17''" "p_lot_id b = ''18''" "p_lot_id c = ''19''" "p_lot_id d = ''14''"
    "p_total_spaces a = 35" "p_total_spaces b = 45" "p_total_spaces c = 60" "p_total_spaces d = 50"
    by (auto simp add: map_eq_Cons_conv)
  have sim: "refresh_data r f sys = simulate r (p_lots sys)"
    using assms(2) by (auto simp add: refresh_data_cases)
  show ?thesis
    using ranges lots
    by (simp add: sim simulate_def is_server_connected_def simulate_lot_def update_occupancy_def)
qed

text \<open>
  Recovery: a 200 response carrying what \<open>get_all_lots\<close> sends for a store with the
  catalog's four lots, each bitmap as long as the lot's capacity, connects the client and
  makes each count the server's count.
\<close>

lemma sum_of_bool_le_length: "sum_list (map of_bool xs) \<le> (int (length xs))"
  by (induction xs) simp_all

lemma sum_of_bool_nonneg: "(0::int) \<le> sum_list (map of_bool xs)"
  by (induction xs) simp_all

lemma refresh_data_mirrors_server:
  assumes "PARKING_LOTS s = [(''17'', l17), (''18'', l18), (''19'', l19), (''14'', l14)]"
    and "lot_id l17 = ''17''" "lot_id l18 = ''18''" "lot_id l19 = ''19''" "lot_id l14 = ''14''"
    and "length (spaces l17) = 35" "length (spaces l18) = 45"
        "length (spaces l19) = 60" "length (spaces l14) = 50"
    and "map p_lot_id (p_lots sys) = [''17'', ''18'', ''19'', ''14'']"
    and "map p_total_spaces (p_lots sys) = [35, 45, 60, 50]"
  shows "\<exists>js. get_all_lots now s = Inr (LotsJson js, 200)
    \<and> fst (refresh_data r (Response 200 (Some (lots_data_of js))) sys) = Some True
    \<and> is_server_connected (snd (refresh_data r (Response 200 (Some (lots_data_of js))) sys))
    \<and> map p_occupied_spaces (p_lots (snd (refresh_data r (Response 200 (Some (lots_data_of js))) sys)))
        = map j_occupied_spaces js
    \<and> map j_occupied_spaces js = map (\<lambda>(lid, l). sum_list (map of_bool (spaces l))) (PARKING_LOTS s)"
proof -
  from assms(10,11) obtain a b c d where lots: "p_lots sys = [a, b, c, d]"
    "p_lot_id a = ''17''" "p_lot_id b = ''18''" "p_lot_id c = ''19''" "p_lot_id d = ''14''"
    "p_total_spaces a = 35" "p_total_spaces b = 45" "p_total_spaces c = 60" "p_total_spaces d = 50"
    by (auto simp add: map_eq_Cons_conv)
  have bounds:
    "0 \<le> (sum_list (map of_bool (spaces l17)) :: int)" "(sum_list (map of_bool (spaces l17)) :: int) \<le> 35"
    "0 \<le> (sum_list (map of_bool (spaces l18)) :: int)" "(sum_list (map of_bool (spaces l18)) :: int) \<le> 45"
    "0 \<le> (sum_list (map of_bool (spaces l19)) :: int)" "(sum_list (map of_bool (spaces l19)) :: int) \<le> 60"
    "0 \<le> (sum_list (map of_bool (spaces l14)) :: int)" "(sum_list (map of_bool (spaces l14)) :: int) \<le> 50"
    using sum_of_bool_le_length [of "spaces l17"] sum_of_bool_le_length [of "spaces l18"]
      sum_of_bool_le_length [of "spaces l19"] sum_of_bool_le_length [of "spaces l14"]
      assms(6-9)
    by (simp_all add: sum_of_bool_nonneg)
  show ?thesis
    using assms(1-5) lots bounds
    by (simp add: get_all_lots_def lot_to_json_def get_occupied_count_def get_available_count_def
        lots_data_of_def refresh_data_def update_occupancy_def is_server_connected_def)
qed

section \<open>Facts about rounding to binary64\<close>

lemma rhe_lower: "of_int N \<le> x \<Longrightarrow> N \<le> round_half_even x"
proof -
  assume "of_int N \<le> x"
  then have "N \<le> \<lfloor>x\<rfloor>" by (simp add: le_floor_iff)
  then show ?thesis by (simp add: round_half_even_def Let_def)
qed

lemma rhe_upper: "x \<le> of_int N \<Longrightarrow> round_half_even x \<le> N"
proof -
  assume le: "x \<le> of_int N"
  then have fl: "\<lfloor>x\<rfloor> \<le> N" by (simp add: floor_le_iff) 
  show ?thesis
  proof (cases "\<lfloor>x\<rfloor> = N")
    case True
    have "of_int \<lfloor>x\<rfloor> \<le> x" by simp
    with True le have "x - of_int \<lfloor>x\<rfloor> = 0" by simp
    with True show ?thesis by (simp add: round_half_even_def Let_def)
  next
    case False
    with fl have "\<lfloor>x\<rfloor> + 1 \<le> N" by simp
    then show ?thesis by (simp add: round_half_even_def Let_def)
  qed
qed

lemma rhe_ge_odd:
  assumes "odd M"
  shows "(M \<le> round_half_even x) = (of_int M - 1 / 2 < x)"
proof
  assume gt: "of_int M - 1 / 2 < x"
  show "M \<le> round_half_even x"
  proof (cases "of_int M \<le> x")
    case True
    then show ?thesis by (rule rhe_lower)
  next
    case False
    then have "\<lfloor>x\<rfloor> < M" by (simp add: floor_less_iff)
    moreover from gt have "of_int (M - 1) \<le> x" by simp
    then have "M - 1 \<le> \<lfloor>x\<rfloor>" by (simp only: le_floor_iff)
    ultimately have fl: "\<lfloor>x\<rfloor> = M - 1" by simp
    with gt have "1 / 2 < x - of_int \<lfloor>x\<rfloor>" by simp
    with fl show ?thesis by (simp add: round_half_even_def Let_def)
  qed
next
  assume ge: "M \<le> round_half_even x"
  show "of_int M - 1 / 2 < x"
  proof (rule ccontr)
    assume "\<not> of_int M - 1 / 2 < x"
    then have le: "x \<le> of_int M - 1 / 2" by simp
    then have "x < of_int M" by simp
    then have fl: "\<lfloor>x\<rfloor> \<le> M - 1" by (simp add: floor_less_iff)
    show False
    proof (cases "\<lfloor>x\<rfloor> = M - 1")
      case True
      with le have d: "x - of_int \<lfloor>x\<rfloor> \<le> 1 / 2" by simp
      from assms True have "even \<lfloor>x\<rfloor>" by simp
      with d True have "round_half_even x = M - 1"
        by (auto simp add: round_half_even_def Let_def)
      with ge show False by simp
    next
      case False
      with fl have "\<lfloor>x\<rfloor> + 1 \<le> M - 1" by simp
      then have "round_half_even x \<le> M - 1" by (simp add: round_half_even_def Let_def)
      with ge show False by simp
    qed
  qed
qed

lemma floor_log2_bounds:
  assumes "0 < x"
  shows "2 powi (floor_log2 x) \<le> x \<and> x < 2 powi (floor_log2 x + 1)"
proof -
  obtain n d where nd: "quotient_of x = (n, d)" by (cases "quotient_of x")
  then have d: "0 < d" and x: "x = of_int n / of_int d"
    by (simp_all add: quotient_of_denom_pos quotient_of_div)
  from assms x d have n: "0 < n" by (simp add: zero_less_divide_iff)
  define k where "k = bitlen n - bitlen d"
  from bitlen_bounds [OF n] have bn: "2 ^ nat (bitlen n - 1) \<le> n" "n < 2 ^ nat (bitlen n)" by simp_all
  from bitlen_bounds [OF d] have bd: "2 ^ nat (bitlen d - 1) \<le> d" "d < 2 ^ nat (bitlen d)" by simp_all
  from n d have pos: "1 \<le> bitlen n" "1 \<le> bitlen d"
    by (simp_all add: bitlen_alt_def)
  have n_lo: "(2::rat) powi (bitlen n - 1) \<le> of_int n"
  proof -
    from bn(1) have "(of_int (2 ^ nat (bitlen n - 1)) :: rat) \<le> of_int n" by (simp only: of_int_le_iff)
    with pos show ?thesis by (simp add: power_int_def)
  qed
  have n_hi: "of_int n < (2::rat) powi (bitlen n)"
  proof -
    from bn(2) have "(of_int n :: rat) < of_int (2 ^ nat (bitlen n))" by (simp only: of_int_less_iff)
    with pos show ?thesis by (simp add: power_int_def)
  qed
  have d_lo: "(2::rat) powi (bitlen d - 1) \<le> of_int d"
  proof -
    from bd(1) have "(of_int (2 ^ nat (bitlen d - 1)) :: rat) \<le> of_int d" by (simp only: of_int_le_iff)
    with pos show ?thesis by (simp add: power_int_def)
  qed
  have d_hi: "of_int d < (2::rat) powi (bitlen d)"
  proof -
    from bd(2) have "(of_int d :: rat) < of_int (2 ^ nat (bitlen d))" by (simp only: of_int_less_iff)
    with pos show ?thesis by (simp add: power_int_def)
  qed
  have dpos: "(0::rat) < of_int d" using d by simp
  have lower: "(2::rat) powi (k - 1) \<le> x"
  proof -
    have "(2::rat) powi (k - 1) * of_int d \<le> 2 powi (k - 1) * 2 powi (bitlen d)"
      using d_hi by (intro mult_left_mono) simp_all
    also have "\<dots> = 2 powi (bitlen n - 1)"
      by (simp add: k_def flip: power_int_add)
    also have "\<dots> \<le> of_int n" by (rule n_lo)
    finally show ?thesis using dpos by (simp add: x pos_le_divide_eq)
  qed
  have upper: "x < (2::rat) powi (k + 1)"
  proof -
    have "of_int n < (2::rat) powi (bitlen n)" by (rule n_hi)
    also have "\<dots> = 2 powi (k + 1) * 2 powi (bitlen d - 1)"
      by (simp add: k_def flip: power_int_add)
    also have "\<dots> \<le> 2 powi (k + 1) * of_int d"
      using d_lo by (intro mult_left_mono) simp_all
    finally show ?thesis using dpos by (simp add: x pos_divide_less_eq)
  qed
  show ?thesis
  proof (cases "2 powi k \<le> x")
    case True
    with nd have "floor_log2 x = k" by (simp add: floor_log2_def k_def)
    with True upper show ?thesis by simp
  next
    case False
    with nd have "floor_log2 x = k - 1" by (simp add: floor_log2_def k_def)
    with False lower show ?thesis by simp
  qed
qed

lemma floor_log2_unique:
  assumes "0 < x" and "2 powi e \<le> x" and "x < 2 powi (e + 1)"
  shows "floor_log2 x = e"
proof -
  from floor_log2_bounds [OF assms(1)]
  have b: "2 powi (floor_log2 x) \<le> x" "x < 2 powi (floor_log2 x + 1)" by simp_all
  have "\<not> floor_log2 x < e"
  proof
    assume "floor_log2 x < e"
    then have "floor_log2 x + 1 \<le> e" by simp
    then have "(2::rat) powi (floor_log2 x + 1) \<le> 2 powi e"
      by (intro power_int_increasing) simp_all
    with b(2) assms(2) show False by simp
  qed
  moreover have "\<not> e < floor_log2 x"
  proof
    assume "e < floor_log2 x"
    then have "e + 1 \<le> floor_log2 x" by simp
    then have "(2::rat) powi (e + 1) \<le> 2 powi (floor_log2 x)"
      by (intro power_int_increasing) simp_all
    with b(1) assms(3) show False by simp
  qed
  ultimately show ?thesis by simp
qed

lemma floor_log2_ge:
  assumes "0 < x" and "2 powi m \<le> x"
  shows "m \<le> floor_log2 x"
proof (rule ccontr)
  assume "\<not> m \<le> floor_log2 x"
  then have "floor_log2 x + 1 \<le> m" by simp
  then have "(2::rat) powi (floor_log2 x + 1) \<le> 2 powi m"
    by (intro power_int_increasing) simp_all
  with floor_log2_bounds [OF assms(1)] assms(2) show False by simp
qed

lemma floor_log2_le:
  assumes "0 < x" and "x < 2 powi (m + 1)"
  shows "floor_log2 x \<le> m"
proof (rule ccontr)
  assume "\<not> floor_log2 x \<le> m"
  then have "m + 1 \<le> floor_log2 x" by simp
  then have "(2::rat) powi (m + 1) \<le> 2 powi (floor_log2 x)"
    by (intro power_int_increasing) simp_all
  with floor_log2_bounds [OF assms(1)] assms(2) show False by simp
qed

lemma round_double_pos:
  "0 < x \<Longrightarrow>
     round_double x =
       of_int (round_half_even (x / 2 powi (max (floor_log2 x) (- 1022) - 52)))
         * 2 powi (max (floor_log2 x) (- 1022) - 52)"
  by (simp add: round_double_def Let_def)

lemma round_double_le:
  assumes "0 < x"
  shows "round_double x \<le> 2 powi (max (floor_log2 x) (- 1022) + 1)"
proof -
  define E where "E = max (floor_log2 x) (- 1022)"
  define u :: rat where "u = 2 powi (E - 52)"
  have u: "0 < u" by (simp add: u_def)
  have "x < 2 powi (floor_log2 x + 1)" using floor_log2_bounds [OF assms] by simp
  also have "\<dots> \<le> 2 powi (E + 1)"
    by (intro power_int_increasing) (simp_all add: E_def)
  also have "\<dots> = of_int (2 ^ 53) * u"
    using power_int_add [of "2::rat" 53 "E - 52"] by (simp add: u_def add.commute)
  finally have "x / u \<le> of_int (2 ^ 53)" using u by (simp add: pos_divide_le_eq)
  then have "round_half_even (x / u) \<le> 2 ^ 53" by (rule rhe_upper)
  then have "(of_int (round_half_even (x / u)) :: rat) \<le> of_int (2 ^ 53)"
    by (simp only: of_int_le_iff)
  then have "of_int (round_half_even (x / u)) * u \<le> of_int (2 ^ 53) * u"
    using u by (intro mult_right_mono) simp_all
  also have "of_int (2 ^ 53) * u = 2 powi (E + 1)"
    using power_int_add [of "2::rat" 53 "E - 52"] by (simp add: u_def add.commute)
  finally show ?thesis
    using assms by (simp add: round_double_pos E_def u_def)
qed

lemma round_double_ge:
  assumes "0 < x" and "- 1022 \<le> floor_log2 x"
  shows "2 powi (floor_log2 x) \<le> round_double x"
proof -
  define u :: rat where "u = 2 powi (floor_log2 x - 52)"
  have u: "0 < u" by (simp add: u_def)
  from assms have rd: "round_double x = of_int (round_half_even (x / u)) * u"
    by (simp add: round_double_pos u_def max_def)
  have scale: "of_int (2 ^ 52) * u = 2 powi (floor_log2 x)"
    using power_int_add [of "2::rat" 52 "floor_log2 x - 52"] by (simp add: u_def)
  also have "\<dots> \<le> x" using floor_log2_bounds [OF assms(1)] by simp
  finally have "of_int (2 ^ 52) \<le> x / u" using u by (simp add: pos_le_divide_eq)
  then have "2 ^ 52 \<le> round_half_even (x / u)" by (rule rhe_lower)
  then have "(of_int (2 ^ 52) :: rat) \<le> of_int (round_half_even (x / u))"
    by (simp only: of_int_le_iff)
  then have "of_int (2 ^ 52) * u \<le> of_int (round_half_even (x / u)) * u"
    using u by (intro mult_right_mono) simp_all
  with scale rd show ?thesis by simp
qed

lemma round_double_quarter:
  assumes "1 / 4 \<le> x" and "x < 1 / 2"
  shows "round_double x = of_int (round_half_even (x * 2 ^ 54)) / 2 ^ 54"
proof -
  from assms have pos: "0 < x" by simp
  have "floor_log2 x = - 2"
    using pos assms by (intro floor_log2_unique) simp_all
  then show ?thesis
    using pos by (simp add: round_double_pos)
qed

lemma float_0_3: "round_double (3 / 10) = 5404319552844595 / 2 ^ 54"
proof -
  have "round_half_even (3 / 10 * 2 ^ 54) = 5404319552844595"
    by code_simp
  then show ?thesis
    by (simp add: round_double_quarter)
qed

lemma round_double_ge_0_3:
  assumes "0 < x" and "x \<le> 1"
  shows "(round_double (3 / 10) \<le> round_double x) = (10808639105689189 < x * 2 ^ 55)"
proof -
  consider "1 / 2 \<le> x" | "1 / 4 \<le> x" "x < 1 / 2" | "x < 1 / 4" by linarith
  then show ?thesis
  proof cases
    case 1
    then have "(2::rat) powi (- 1) \<le> x" by simp
    then have e: "- 1 \<le> floor_log2 x" using assms(1) by (intro floor_log2_ge)
    then have "(2::rat) powi (- 1) \<le> 2 powi (floor_log2 x)"
      by (intro power_int_increasing) simp_all
    also have "\<dots> \<le> round_double x"
      using e by (intro round_double_ge assms(1)) simp
    finally have "1 / 2 \<le> round_double x" by simp
    with 1 show ?thesis by (simp add: float_0_3)
  next
    case 2
    have "(5404319552844595 \<le> round_half_even (x * 2 ^ 54))
        = (of_int 5404319552844595 - 1 / 2 < x * 2 ^ 54)"
      by (rule rhe_ge_odd) simp
    then have "(5404319552844595 \<le> round_half_even (x * 2 ^ 54)) = (10808639105689189 < x * 2 ^ 55)"
      by (simp add: mult.commute)
    moreover have "(round_double (3 / 10) \<le> round_double x)
        = ((of_int 5404319552844595 :: rat) \<le> of_int (round_half_even (x * 2 ^ 54)))"
      using 2 by (simp add: float_0_3 round_double_quarter divide_le_cancel)
    ultimately show ?thesis by (simp only: of_int_le_iff)
  next
    case 3
    then have "x < 2 powi (- 3 + 1)" by simp
    then have e: "floor_log2 x \<le> - 3" using assms(1) by (intro floor_log2_le)
    have "round_double x \<le> 2 powi (max (floor_log2 x) (- 1022) + 1)"
      by (rule round_double_le [OF assms(1)])
    also have "\<dots> \<le> 2 powi (- 2)"
      using e by (intro power_int_increasing) simp_all
    finally have "round_double x \<le> 1 / 4" by simp
    with 3 show ?thesis by (simp add: float_0_3)
  qed
qed

lemma round_double_nonneg:
  assumes "0 \<le> x"
  shows "0 \<le> round_double x"
proof (cases "x = 0")
  case True
  then show ?thesis by (simp add: round_double_def)
next
  case False
  with assms have pos: "0 < x" by simp
  define u :: rat where "u = 2 powi (max (floor_log2 x) (- 1022) - 52)"
  have u: "0 < u" by (simp add: u_def)
  with pos have "of_int 0 \<le> x / u" by simp
  then have "0 \<le> round_half_even (x / u)" by (rule rhe_lower)
  with u show ?thesis by (simp add: round_double_pos [OF pos] flip: u_def)
qed

lemma true_divide_unit:
  assumes "0 < b" and "0 \<le> a" and "a \<le> b"
  shows "true_divide a b = Inr (round_double (of_int a / of_int b))"
proof -
  define x :: rat where "x = of_int a / of_int b"
  from assms have x: "0 \<le> x" "x \<le> 1" by (simp_all add: x_def)
  have small: "round_double x \<le> 2"
  proof (cases "x = 0")
    case True
    then show ?thesis by (simp add: round_double_def)
  next
    case False
    with x have pos: "0 < x" by simp
    from x(2) have "x < 2 powi (0 + 1)" by simp
    then have e: "floor_log2 x \<le> 0" by (rule floor_log2_le [OF pos])
    have "round_double x \<le> 2 powi (max (floor_log2 x) (- 1022) + 1)"
      by (rule round_double_le [OF pos])
    also have "\<dots> \<le> 2 powi 1"
      using e by (intro power_int_increasing) simp_all
    finally show ?thesis by simp
  qed
  have "\<bar>round_double x\<bar> = round_double x"
    using round_double_nonneg [OF x(1)] by simp
  with small have "\<not> 2 powi 1024 \<le> \<bar>round_double x\<bar>" by simp
  with assms(1) show ?thesis by (simp add: true_divide_def Let_def x_def)
qed

lemma get_status_ratio:
  assumes "0 < p_total_spaces lot"
    and "0 \<le> p_occupied_spaces lot" and "p_occupied_spaces lot \<le> p_total_spaces lot"
  shows "get_status lot =
     Inr (if 10808639105689189 * p_total_spaces lot < available_spaces lot * 2 ^ 55 then AVAILABLE
          else if 0 < round_double (of_int (available_spaces lot) / of_int (p_total_spaces lot))
          then LIMITED else FULL)"
proof -
  define a where "a = available_spaces lot"
  define C where "C = p_total_spaces lot"
  define x :: rat where "x = of_int a / of_int C"
  from assms have a: "0 \<le> a" "a \<le> C" and C: "0 < C"
    by (simp_all add: a_def C_def available_spaces_def)
  have div: "true_divide a C = Inr (round_double x)"
    unfolding x_def by (rule true_divide_unit [OF C a])
  have thr: "(round_double (3 / 10) \<le> round_double x) = (10808639105689189 * C < a * 2 ^ 55)"
  proof (cases "a = 0")
    case True
    have "round_double 0 = 0" by (simp add: round_double_def)
    with True C show ?thesis by (simp add: x_def float_0_3)
  next
    case False
    with a C have "0 < x" "x \<le> 1" by (simp_all add: x_def)
    then have "(round_double (3 / 10) \<le> round_double x) = (10808639105689189 < x * 2 ^ 55)"
      by (rule round_double_ge_0_3)
    also have "\<dots> = ((of_int (10808639105689189 * C) :: rat) < of_int (a * 2 ^ 55))"
      using C by (simp add: x_def pos_less_divide_eq)
    also have "\<dots> = (10808639105689189 * C < a * 2 ^ 55)"
      by (simp only: of_int_less_iff)
    finally show ?thesis .
  qed
  show ?thesis
    using div thr by (simp add: get_status_def flip: a_def C_def x_def)
qed

section \<open>Occupancy is clamped\<close>

text \<open>
  C1. For every lot with capacity \<open>C > 0\<close> and every integer \<open>n\<close>, \<open>update_occupancy\<close>
  stores \<open>n\<close> clamped into \<open>[0, C]\<close> (0 below the range, \<open>C\<close> above it, \<open>n\<close> itself
  inside), it has no error result, and afterwards the occupied count and the available
  count \<open>C - occupied\<close> both lie in \<open>[0, C]\<close>. In particular \<open>n = -10\<close> leaves \<open>C\<close>
  spaces available and \<open>n = C + 50\<close> leaves none.
\<close>

theorem update_occupancy_clamps:
  assumes "0 < p_total_spaces lot"
  shows "p_occupied_spaces (update_occupancy lot n) =
           (if n < 0 then 0 else if p_total_spaces lot < n then p_total_spaces lot else n)
         \<and> 0 \<le> p_occupied_spaces (update_occupancy lot n)
         \<and> p_occupied_spaces (update_occupancy lot n) \<le> p_total_spaces lot
         \<and> available_spaces (update_occupancy lot n)
             = p_total_spaces lot - p_occupied_spaces (update_occupancy lot n)
         \<and> 0 \<le> available_spaces (update_occupancy lot n)
         \<and> available_spaces (update_occupancy lot n) \<le> p_total_spaces lot
         \<and> available_spaces (update_occupancy lot (- 10)) = p_total_spaces lot
         \<and> available_spaces (update_occupancy lot (p_total_spaces lot + 50)) = 0"
  using assms by (simp add: update_occupancy_def available_spaces_def)

theorem update_occupancy_clamps_witness:
  "0 < p_total_spaces (ParkingLot_init ''17'' ''Lot 17'' 35 ''Student'' 2)
   \<and> p_occupied_spaces (update_occupancy (ParkingLot_init ''17'' ''Lot 17'' 35 ''Student'' 2) 100) = 35
   \<and> available_spaces (update_occupancy (ParkingLot_init ''17'' ''Lot 17'' 35 ''Student'' 2) 100) = 0
   \<and> available_spaces (update_occupancy (ParkingLot_init ''17'' ''Lot 17'' 35 ''Student'' 2) (- 10)) = 35"
proof -
  have pos: "0 < p_total_spaces (ParkingLot_init ''17'' ''Lot 17'' 35 ''Student'' 2)"
    by (simp add: ParkingLot_init_def)
  show ?thesis
    using pos
      update_occupancy_clamps [OF pos, of 100]
    by (simp add: ParkingLot_init_def available_spaces_def)
qed

section \<open>Access policy\<close>

text \<open>
  C3. \<open>can_user_park\<close> agrees with the access table on all twelve pairs of a permit class
  and a requester class: an \<open>Open\<close> lot admits students, staff and visitors; a
  \<open>Both\<close> lot (the spec's StudentOrStaff) admits students and staff but no visitor; a
  \<open>Student\<close> lot admits only students; a \<open>Staff\<close> lot admits only staff. Hence a
  visitor is admitted exactly to \<open>Open\<close> lots among the four permit classes.
\<close>

theorem can_user_park_table:
  "can_user_park (lot\<lparr>p_permit_type := ''Open''\<rparr>) STUDENT
   \<and> can_user_park (lot\<lparr>p_permit_type := ''Open''\<rparr>) STAFF
   \<and> can_user_park (lot\<lparr>p_permit_type := ''Open''\<rparr>) VISITOR
   \<and> can_user_park (lot\<lparr>p_permit_type := ''Both''\<rparr>) STUDENT
   \<and> can_user_park (lot\<lparr>p_permit_type := ''Both''\<rparr>) STAFF
   \<and> \<not> can_user_park (lot\<lparr>p_permit_type := ''Both''\<rparr>) VISITOR
   \<and> can_user_park (lot\<lparr>p_permit_type := ''Student''\<rparr>) STUDENT
   \<and> \<not> can_user_park (lot\<lparr>p_permit_type := ''Student''\<rparr>) STAFF
   \<and> \<not> can_user_park (lot\<lparr>p_permit_type := ''Student''\<rparr>) VISITOR
   \<and> \<not> can_user_park (lot\<lparr>p_permit_type := ''Staff''\<rparr>) STUDENT
   \<and> can_user_park (lot\<lparr>p_permit_type := ''Staff''\<rparr>) STAFF
   \<and> \<not> can_user_park (lot\<lparr>p_permit_type := ''Staff''\<rparr>) VISITOR
   \<and> (p_permit_type lot \<in> {''Open'', ''Both'', ''Student'', ''Staff''}
        \<and> can_user_park lot VISITOR) = (p_permit_type lot = ''Open'')"
  by (auto simp add: can_user_park_def)

section \<open>Recommendations\<close>

text \<open>
  C5. For every requester class, \<open>get_recommended_lots\<close> returns exactly the lots of the
  system for which \<open>can_user_park\<close> holds, as a subsequence of the system's list (the
  definition order is kept, nothing is repeated or reordered), and its first element is
  the first lot of the list that the requester may use. The catalog's definition order is
  17, 18, 19, 14, so a student is offered 17, 19, 14, a member of staff 18, 19, 14 and a
  visitor 14, in that order.
\<close>

theorem get_recommended_lots_ordered:
  "subseq (get_recommended_lots sys u) (p_lots sys)
   \<and> set (get_recommended_lots sys u) = {lot \<in> set (p_lots sys). can_user_park lot u}
   \<and> get_recommended_lots sys u = filter (\<lambda>lot. can_user_park lot u) (p_lots sys)
   \<and> List.find (\<lambda>lot. can_user_park lot u) (p_lots sys)
       = (case get_recommended_lots sys u of [] \<Rightarrow> None | lot # _ \<Rightarrow> Some lot)
   \<and> map p_lot_id (p_lots ParkingSystem_init) = [''17'', ''18'', ''19'', ''14'']
   \<and> map p_lot_id (get_recommended_lots ParkingSystem_init STUDENT) = [''17'', ''19'', ''14'']
   \<and> map p_lot_id (get_recommended_lots ParkingSystem_init STAFF) = [''18'', ''19'', ''14'']
   \<and> map p_lot_id (get_recommended_lots ParkingSystem_init VISITOR) = [''14'']"
proof -
  have first: "List.find P xs = (case filter P xs of [] \<Rightarrow> None | x # _ \<Rightarrow> Some x)"
    for P :: "ParkingLot \<Rightarrow> bool" and xs
    by (induction xs) simp_all
  have catalog: "map p_lot_id (p_lots ParkingSystem_init) = [''17'', ''18'', ''19'', ''14'']"
    by (simp add: ParkingSystem_init_def initialize_lots_def ParkingLot_init_def)
  have student: "map p_lot_id (get_recommended_lots ParkingSystem_init STUDENT) = [''17'', ''19'', ''14'']"
    by (simp add: get_recommended_lots_def ParkingSystem_init_def initialize_lots_def
        ParkingLot_init_def can_user_park_def)
  have staff: "map p_lot_id (get_recommended_lots ParkingSystem_init STAFF) = [''18'', ''19'', ''14'']"
    by (simp add: get_recommended_lots_def ParkingSystem_init_def initialize_lots_def
        ParkingLot_init_def can_user_park_def)
  have visitor: "map p_lot_id (get_recommended_lots ParkingSystem_init VISITOR) = [''14'']"
    by (simp add: get_recommended_lots_def ParkingSystem_init_def initialize_lots_def
        ParkingLot_init_def can_user_park_def)
  show ?thesis
    using first [of "\<lambda>lot. can_user_park lot u" "p_lots sys"] catalog student staff visitor
    by (simp add: get_recommended_lots_def)
qed

section \<open>Unknown lots and invalid indices\<close>

text \<open>
  C6. The claim holds for unknown ids, for an index at or above the lot's total and for
  the reads (\<open>endpoint_errors\<close> above). It fails on a negative index: the function
  \<^verbatim>\<open>toggle_space\<close> tests \<^verbatim>\<open>space_index < 0\<close> and would answer 400 with an error body,
  but the route's converter \<^verbatim>\<open><int:space_index>\<close> matches no negative number, so the
  request \<^verbatim>\<open>POST /api/lot/17/toggle/-1\<close> on the initial store is answered with Flask's 404
  page, the store unchanged. The index 35, at the lot's total, does get the 400.
\<close>

theorem toggle_space_negative_index:
  "toggle_space Written (server_init None) ''17'' (- 1)
     = (Inr (NotFoundPage, 404), server_init None)
   \<and> handle_post \<lparr>randint = (\<lambda>a b. a), sample = (\<lambda>n k. [])\<rparr> Written (server_init None)
        (Toggle ''17'' (- 1))
     = (Inr (NotFoundPage, 404), server_init None)
   \<and> toggle_space Written (server_init None) ''17'' 35
     = (Inr (ErrorJson ''Invalid space index'', 400), server_init None)"
  by (simp add: handle_post_def toggle_space_def server_init_def PARKING_LOTS_init_def)

section \<open>Randomised occupancy is exact\<close>

text \<open>
  C7. Let \<open>k\<close> be the count that \<open>randomize_lot\<close> draws for a known lot (from 28--35 for
  lot 17, 40--45 for lot 18, 45--60 for lot 19 and 15--40 for any other id), and let
  \<open>0 \<le> k \<le> total_spaces\<close>. Then \<open>randomize_lot\<close> replaces the bitmap by one of the lot's
  length in which exactly the sampled indices are occupied: they are pairwise distinct,
  there are \<open>k\<close> of them, the occupied count afterwards is \<open>k\<close> and the available count is
  \<open>total_spaces - k\<close>, which are also the counts of the response body. The random module is
  assumed to keep its contract (\<open>random_contract\<close>).
\<close>

theorem randomize_lot_exact_count:
  assumes "random_contract r"
    and "map_of (PARKING_LOTS s) lid = Some l"
    and "k = draw_occupied_count r lid"
    and "0 \<le> k" and "k \<le> total_spaces l"
  shows "\<exists>sp. map_of (PARKING_LOTS (snd (randomize_lot r w s lid))) lid = Some (l\<lparr>spaces := sp\<rparr>)
           \<and> length sp = nat (total_spaces l)
           \<and> {j. j < length sp \<and> sp ! j} = set (sample r (total_spaces l) k)
           \<and> distinct (sample r (total_spaces l) k)
           \<and> card {j. j < length sp \<and> sp ! j} = nat k
           \<and> get_occupied_count (PARKING_LOTS (snd (randomize_lot r w s lid))) lid = Inr k
           \<and> get_available_count (PARKING_LOTS (snd (randomize_lot r w s lid))) lid
               = Inr (total_spaces l - k)
           \<and> randomize_lot r Written s lid =
               (Inr (RandomJson True lid k (total_spaces l - k), 200),
                \<lparr>PARKING_LOTS = AList.update lid (l\<lparr>spaces := sp\<rparr>) (PARKING_LOTS s),
                 data_file = Some (AList.update lid (l\<lparr>spaces := sp\<rparr>) (PARKING_LOTS s))\<rparr>)
           \<and> k = (if lid = ''17'' then randint r 28 35 else if lid = ''18'' then randint r 40 45
                  else if lid = ''19'' then randint r 45 60 else randint r 15 40)
           \<and> (if lid = ''17'' then 28 \<le> k \<and> k \<le> 35 else if lid = ''18'' then 40 \<le> k \<and> k \<le> 45
              else if lid = ''19'' then 45 \<le> k \<and> k \<le> 60 else 15 \<le> k \<and> k \<le> 40)"
proof -
  let ?idxs = "sample r (total_spaces l) k"
  from assms(1,4,5) have idxs: "distinct ?idxs" "length ?idxs = nat k"
      "\<forall>i \<in> set ?idxs. i < nat (total_spaces l)"
    by (simp_all add: random_contract_def)
  from mark_occupied_count [OF idxs(1) idxs(3)] obtain sp where sp:
    "mark_occupied ?idxs (replicate (nat (total_spaces l)) False) = (Inr (), sp)"
    "length sp = nat (total_spaces l)"
    "{j. j < length sp \<and> sp ! j} = set ?idxs"
    "sum_list (map of_bool sp) = int (length ?idxs)"
    by blast
  from assms(4,5) have drawn: "random_sample r (total_spaces l) k = Inr ?idxs"
    by (simp add: random_sample_def)
  have store: "PARKING_LOTS (snd (randomize_lot r w s lid))
      = AList.update lid (l\<lparr>spaces := sp\<rparr>) (PARKING_LOTS s)"
    using assms(2,3) drawn sp(1)
    by (cases w) (simp_all add: randomize_lot_def Let_def save_data_def)
  have written: "randomize_lot r Written s lid =
               (Inr (RandomJson True lid k (total_spaces l - k), 200),
                \<lparr>PARKING_LOTS = AList.update lid (l\<lparr>spaces := sp\<rparr>) (PARKING_LOTS s),
                 data_file = Some (AList.update lid (l\<lparr>spaces := sp\<rparr>) (PARKING_LOTS s))\<rparr>)"
    using assms(2,3) drawn sp(1)
    by (simp add: randomize_lot_def Let_def save_data_def)
  have entry: "map_of (PARKING_LOTS (snd (randomize_lot r w s lid))) lid = Some (l\<lparr>spaces := sp\<rparr>)"
    by (simp add: store map_of_update)
  have occ: "get_occupied_count (PARKING_LOTS (snd (randomize_lot r w s lid))) lid = Inr k"
    using assms(4) by (simp add: occupied_known [OF entry] sp(4) idxs(2))
  have av: "get_available_count (PARKING_LOTS (snd (randomize_lot r w s lid))) lid
               = Inr (total_spaces l - k)"
    using assms(4) by (simp add: available_known [OF entry] sp(4) idxs(2))
  have card: "card {j. j < length sp \<and> sp ! j} = nat k"
    using idxs(1,2) by (simp add: sp(3) distinct_card)
  have drawn_from: "k = (if lid = ''17'' then randint r 28 35 else if lid = ''18'' then randint r 40 45
                  else if lid = ''19'' then randint r 45 60 else randint r 15 40)"
    using assms(3) by (simp add: draw_occupied_count_def)
  have in_range: "if lid = ''17'' then 28 \<le> k \<and> k \<le> 35 else if lid = ''18'' then 40 \<le> k \<and> k \<le> 45
              else if lid = ''19'' then 45 \<le> k \<and> k \<le> 60 else 15 \<le> k \<and> k \<le> 40"
    using assms(1,3) by (simp add: draw_occupied_count_def random_contract_def)
  from entry sp(2,3) idxs(1) card occ av written drawn_from in_range show ?thesis
    by blast
qed

theorem randomize_lot_exact_count_witness:
  "random_contract \<lparr>randint = (\<lambda>a b. a), sample = (\<lambda>n k. [0..<nat k])\<rparr>
   \<and> draw_occupied_count \<lparr>randint = (\<lambda>a b. a), sample = (\<lambda>n k. [0..<nat k])\<rparr> ''17'' = 28
   \<and> get_occupied_count (PARKING_LOTS (snd (randomize_lot
         \<lparr>randint = (\<lambda>a b. a), sample = (\<lambda>n k. [0..<nat k])\<rparr> Written (server_init None) ''17'')))
         ''17'' = Inr 28
   \<and> get_available_count (PARKING_LOTS (snd (randomize_lot
         \<lparr>randint = (\<lambda>a b. a), sample = (\<lambda>n k. [0..<nat k])\<rparr> Written (server_init None) ''17'')))
         ''17'' = Inr 7"
proof -
  let ?r = "\<lparr>randint = (\<lambda>a b. a), sample = (\<lambda>n k. [0..<nat k])\<rparr>"
  let ?l = "\<lparr>lot_id = ''17'', name = ''Lot 17'', total_spaces = 35, permit_type = ''Student'',
              drive_time = 2, walk_time = 4, spaces = replicate 35 False\<rparr>"
  have contract: "random_contract ?r"
    by (auto simp add: random_contract_def)
  have known: "map_of (PARKING_LOTS (server_init None)) ''17'' = Some ?l"
    by (simp add: server_init_def PARKING_LOTS_init_def)
  have drawn: "28 = draw_occupied_count ?r ''17''"
    by (simp add: draw_occupied_count_def)
  have fits: "(28::int) \<le> total_spaces ?l" by simp
  show ?thesis
    using contract drawn
      randomize_lot_exact_count [OF contract known drawn _ fits, of Written]
    by auto
qed

section \<open>Toggling twice\<close>

text \<open>
  C9. \<open>toggle_space\<close> is its own inverse: whatever the lot id, the index and the outcomes
  of the two writes, two successive calls with the same lot and index return the
  dictionary, hence every bitmap and both counts of the lot, to exactly its original
  value. For a known lot and an index \<open>0 \<le> i < total_spaces\<close> of a bitmap of that length,
  the first call does change the dictionary: it flips bit \<open>i\<close> of the lot.
\<close>

theorem toggle_space_twice:
  "PARKING_LOTS (snd (toggle_space w2 (snd (toggle_space w1 s lid i)) lid i)) = PARKING_LOTS s
   \<and> get_occupied_count (PARKING_LOTS (snd (toggle_space w2 (snd (toggle_space w1 s lid i)) lid i))) lid
       = get_occupied_count (PARKING_LOTS s) lid
   \<and> get_available_count (PARKING_LOTS (snd (toggle_space w2 (snd (toggle_space w1 s lid i)) lid i))) lid
       = get_available_count (PARKING_LOTS s) lid
   \<and> (map_of (PARKING_LOTS s) lid = Some l \<and> 0 \<le> i \<and> i < total_spaces l
        \<and> length (spaces l) = nat (total_spaces l) \<longrightarrow>
        map_of (PARKING_LOTS (snd (toggle_space w1 s lid i))) lid
          = Some (l\<lparr>spaces := (spaces l)[nat i := \<not> spaces l ! nat i]\<rparr>)
        \<and> spaces l ! nat i \<noteq> (spaces l)[nat i := \<not> spaces l ! nat i] ! nat i)"
proof -
  have flip: "map_of (PARKING_LOTS s) lid = Some l \<and> 0 \<le> i \<and> i < total_spaces l
        \<and> length (spaces l) = nat (total_spaces l) \<longrightarrow>
        map_of (PARKING_LOTS (snd (toggle_space w1 s lid i))) lid
          = Some (l\<lparr>spaces := (spaces l)[nat i := \<not> spaces l ! nat i]\<rparr>)
        \<and> spaces l ! nat i \<noteq> (spaces l)[nat i := \<not> spaces l ! nat i] ! nat i"
    by (auto simp add: toggle_space_store map_of_update)
  show ?thesis
    using flip by (simp add: toggle_twice_store)
qed

theorem toggle_space_twice_witness:
  "map_of (PARKING_LOTS (server_init None)) ''18'' =
     Some \<lparr>lot_id = ''18'', name = ''Lot 18'', total_spaces = 45, permit_type = ''Staff'',
           drive_time = 1, walk_time = 3, spaces = replicate 45 False\<rparr>
   \<and> map_of (PARKING_LOTS (snd (toggle_space Written (server_init None) ''18'' 7))) ''18'' =
     Some \<lparr>lot_id = ''18'', name = ''Lot 18'', total_spaces = 45, permit_type = ''Staff'',
           drive_time = 1, walk_time = 3, spaces = (replicate 45 False)[7 := True]\<rparr>
   \<and> PARKING_LOTS (snd (toggle_space Written
         (snd (toggle_space Written (server_init None) ''18'' 7)) ''18'' 7))
       = PARKING_LOTS (server_init None)"
proof -
  let ?s = "server_init None"
  let ?l = "\<lparr>lot_id = ''18'', name = ''Lot 18'', total_spaces = 45, permit_type = ''Staff'',
           drive_time = 1, walk_time = 3, spaces = replicate 45 False\<rparr>"
  have known: "map_of (PARKING_LOTS ?s) ''18'' = Some ?l"
    by (simp add: server_init_def PARKING_LOTS_init_def)
  show ?thesis
    using known
      toggle_space_twice [where s = ?s and lid = "''18''" and l = ?l and i = 7
        and ?w1.0 = Written and ?w2.0 = Written]
    by simp
qed

section \<open>Mutations change occupancy only\<close>

text \<open>
  C10. Each of the mutating endpoints (toggle, reset, fill, random), on every request and
  whatever its result, leaves \<open>fixed_fields\<close> of the dictionary as it was: the same keys in
  the same order (no lot is created or destroyed), each with the same id, name, capacity,
  permit type, drive time and walk time. The client's \<open>update_occupancy\<close> changes no field
  of a lot but the occupied count. \<open>toggle_space lid i\<close> moreover leaves the entry of
  every other lot as it was, keeps the length of the lot's bitmap and leaves every bit of
  it other than bit \<open>i\<close> as it was.
\<close>

theorem mutations_change_only_occupancy:
  "fixed_fields (PARKING_LOTS (snd (handle_post r w s req))) = fixed_fields (PARKING_LOTS s)
   \<and> map fst (PARKING_LOTS (snd (handle_post r w s req))) = map fst (PARKING_LOTS s)
   \<and> update_occupancy lot n = lot\<lparr>p_occupied_spaces := p_occupied_spaces (update_occupancy lot n)\<rparr>
   \<and> (lid' \<noteq> lid \<longrightarrow>
        map_of (PARKING_LOTS (snd (toggle_space w s lid i))) lid' = map_of (PARKING_LOTS s) lid')
   \<and> (map_of (PARKING_LOTS s) lid = Some l \<longrightarrow>
        (\<exists>l'. map_of (PARKING_LOTS (snd (toggle_space w s lid i))) lid = Some l'
           \<and> length (spaces l') = length (spaces l)
           \<and> (\<forall>j. j \<noteq> nat i \<longrightarrow> spaces l' ! j = spaces l ! j)))"
proof -
  have ff: "fixed_fields (PARKING_LOTS (snd (handle_post r w s req))) = fixed_fields (PARKING_LOTS s)"
  proof (cases req)
    case (Toggle lid i)
    then show ?thesis
      by (simp add: handle_post_def toggle_space_store fixed_fields_update split: option.splits)
  next
    case (Reset lid)
    then show ?thesis
      by (simp add: handle_post_def reset_lot_store fixed_fields_update split: option.splits)
  next
    case (Fill lid)
    then show ?thesis
      by (simp add: handle_post_def fill_lot_store fixed_fields_update split: option.splits)
  next
    case (Random lid)
    obtain sp where "PARKING_LOTS (snd (randomize_lot r w s lid)) =
       (case map_of (PARKING_LOTS s) lid of
          None \<Rightarrow> PARKING_LOTS s
        | Some l \<Rightarrow> AList.update lid (l\<lparr>spaces := sp\<rparr>) (PARKING_LOTS s))"
      using randomize_lot_store by blast
    with Random show ?thesis
      by (simp add: handle_post_def fixed_fields_update split: option.splits)
  qed
  have keys: "map fst (fixed_fields st) = map fst st" for st
    by (induction st) (auto simp add: fixed_fields_def)
  have same_keys:
    "map fst (PARKING_LOTS (snd (handle_post r w s req))) = map fst (PARKING_LOTS s)"
    using ff keys by metis
  have client:
    "update_occupancy lot n = lot\<lparr>p_occupied_spaces := p_occupied_spaces (update_occupancy lot n)\<rparr>"
    by (simp add: update_occupancy_def)
  have others: "lid' \<noteq> lid \<longrightarrow>
        map_of (PARKING_LOTS (snd (toggle_space w s lid i))) lid' = map_of (PARKING_LOTS s) lid'"
    by (simp add: toggle_space_store map_of_update split: option.splits)
  have bits: "map_of (PARKING_LOTS s) lid = Some l \<longrightarrow>
        (\<exists>l'. map_of (PARKING_LOTS (snd (toggle_space w s lid i))) lid = Some l'
           \<and> length (spaces l') = length (spaces l)
           \<and> (\<forall>j. j \<noteq> nat i \<longrightarrow> spaces l' ! j = spaces l ! j))"
    by (simp add: toggle_space_store map_of_update)
  from ff same_keys client others bits show ?thesis by blast
qed

theorem mutations_change_only_occupancy_witness:
  "''18'' \<noteq> ''17''
   \<and> map_of (PARKING_LOTS (snd (toggle_space Written (server_init None) ''17'' 3))) ''18''
       = map_of (PARKING_LOTS (server_init None)) ''18''
   \<and> map_of (PARKING_LOTS (server_init None)) ''17'' =
        Some \<lparr>lot_id = ''17'', name = ''Lot 17'', total_spaces = 35, permit_type = ''Student'',
              drive_time = 2, walk_time = 4, spaces = replicate 35 False\<rparr>
   \<and> (\<exists>l'. map_of (PARKING_LOTS (snd (toggle_space Written (server_init None) ''17'' 3))) ''17''
              = Some l'
          \<and> length (spaces l') = 35 \<and> spaces l' ! 4 = False)
   \<and> fixed_fields (PARKING_LOTS (snd (handle_post \<lparr>randint = (\<lambda>a b. a), sample = (\<lambda>n k. [])\<rparr>
         Written (server_init None) (Toggle ''17'' 3))))
       = fixed_fields (PARKING_LOTS (server_init None))"
proof -
  let ?s = "server_init None"
  let ?l = "\<lparr>lot_id = ''17'', name = ''Lot 17'', total_spaces = 35, permit_type = ''Student'',
              drive_time = 2, walk_time = 4, spaces = replicate 35 False\<rparr>"
  have known: "map_of (PARKING_LOTS ?s) ''17'' = Some ?l"
    by (simp add: server_init_def PARKING_LOTS_init_def)
  have other: "''18'' \<noteq> ''17''" by simp
  note frame = mutations_change_only_occupancy [where s = ?s and lid = "''17''" and lid' = "''18''"
        and l = ?l and i = 3 and w = Written and req = "Toggle ''17'' 3"
        and r = "\<lparr>randint = (\<lambda>a b. a), sample = (\<lambda>n k. [])\<rparr>"
        and lot = "ParkingLot_init ''17'' ''Lot 17'' 35 ''Student'' 2" and n = 0]
  from frame known obtain l' where l':
    "map_of (PARKING_LOTS (snd (toggle_space Written ?s ''17'' 3))) ''17'' = Some l'"
    "length (spaces l') = length (spaces ?l)"
    "\<forall>j. j \<noteq> nat 3 \<longrightarrow> spaces l' ! j = spaces ?l ! j"
    by blast
  from l'(3) have "spaces l' ! 4 = spaces ?l ! 4" by simp
  then have bit: "spaces l' ! 4 = False" by simp
  from l'(2) have len: "length (spaces l') = 35" by simp
  from l'(1) len bit have toggled:
    "\<exists>l'. map_of (PARKING_LOTS (snd (toggle_space Written ?s ''17'' 3))) ''17'' = Some l'
          \<and> length (spaces l') = 35 \<and> spaces l' ! 4 = False"
    by blast
  from frame known other toggled show ?thesis by simp
qed

section \<open>Write-through, and a failed write\<close>

text \<open>
  C8, as the code has it. Whenever a mutating endpoint (toggle, reset, fill, random)
  answers 200 under a successful write, the file then holds the whole dictionary as it is
  after the mutation (write-through). Had the write failed instead, the same call raises
  \<open>OSError\<close> out of the handler, so that no response body is returned, the file holds what
  the failed write left, and the dictionary in memory is the mutated one all the same
  (no rollback): \<open>get_lot\<close> and \<open>get_all_lots\<close> answer exactly as they do after the
  successful call.
\<close>

theorem write_through_no_rollback:
  assumes "fst (handle_post r Written s req) = Inr (body, 200)"
  shows "data_file (snd (handle_post r Written s req))
           = Some (PARKING_LOTS (snd (handle_post r Written s req)))
         \<and> fst (handle_post r (WriteFailed d) s req) = Inl OSError
         \<and> PARKING_LOTS (snd (handle_post r (WriteFailed d) s req))
             = PARKING_LOTS (snd (handle_post r Written s req))
         \<and> data_file (snd (handle_post r (WriteFailed d) s req)) = d
         \<and> get_lot now (snd (handle_post r (WriteFailed d) s req)) lid
             = get_lot now (snd (handle_post r Written s req)) lid
         \<and> get_all_lots now (snd (handle_post r (WriteFailed d) s req))
             = get_all_lots now (snd (handle_post r Written s req))"
proof -
  have both: "data_file (snd (handle_post r Written s req))
           = Some (PARKING_LOTS (snd (handle_post r Written s req)))
         \<and> handle_post r (WriteFailed d) s req
             = (Inl OSError, (snd (handle_post r Written s req))\<lparr>data_file := d\<rparr>)"
  proof (cases req)
    case (Toggle lid i)
    with assms show ?thesis by (simp add: handle_post_def toggle_space_write)
  next
    case (Reset lid)
    with assms show ?thesis by (simp add: handle_post_def reset_lot_write)
  next
    case (Fill lid)
    with assms show ?thesis by (simp add: handle_post_def fill_lot_write)
  next
    case (Random lid)
    with assms show ?thesis by (simp add: handle_post_def randomize_lot_write)
  qed
  then show ?thesis
    by (simp add: get_lot_memory get_all_lots_memory)
qed

theorem write_through_no_rollback_witness:
  "fst (handle_post \<lparr>randint = (\<lambda>a b. a), sample = (\<lambda>n k. [])\<rparr> Written (server_init None)
          (Toggle ''17'' 0))
     = Inr (ToggleJson True ''17'' 0 True 1 34, 200)
   \<and> data_file (snd (handle_post \<lparr>randint = (\<lambda>a b. a), sample = (\<lambda>n k. [])\<rparr> Written
          (server_init None) (Toggle ''17'' 0)))
     = Some (PARKING_LOTS (snd (handle_post \<lparr>randint = (\<lambda>a b. a), sample = (\<lambda>n k. [])\<rparr> Written
          (server_init None) (Toggle ''17'' 0))))
   \<and> fst (handle_post \<lparr>randint = (\<lambda>a b. a), sample = (\<lambda>n k. [])\<rparr> (WriteFailed None)
          (server_init None) (Toggle ''17'' 0))
     = Inl OSError
   \<and> get_lot ''t'' (snd (handle_post \<lparr>randint = (\<lambda>a b. a), sample = (\<lambda>n k. [])\<rparr>
          (WriteFailed None) (server_init None) (Toggle ''17'' 0))) ''17''
     = get_lot ''t'' (snd (handle_post \<lparr>randint = (\<lambda>a b. a), sample = (\<lambda>n k. [])\<rparr>
          Written (server_init None) (Toggle ''17'' 0))) ''17''"
proof -
  let ?r = "\<lparr>randint = (\<lambda>a b. a), sample = (\<lambda>n k. [])\<rparr>"
  have ok: "fst (handle_post ?r Written (server_init None) (Toggle ''17'' 0))
      = Inr (ToggleJson True ''17'' 0 True 1 34, 200)"
    by code_simp
  show ?thesis
    using ok write_through_no_rollback [OF ok, of None "''t''" "''17''"]
    by simp
qed

text \<open>
  The claim as stated fails: with a failing write, toggling space 0 of lot 17 in the initial
  store does not return a success response carrying a soft error; the call raises, while
  space 0 is occupied in memory.
\<close>

theorem write_failure_counterexample:
  "fst (toggle_space (WriteFailed None) (server_init None) ''17'' 0) = Inl OSError
   \<and> map_of (PARKING_LOTS (snd (toggle_space (WriteFailed None) (server_init None) ''17'' 0))) ''17''
       = Some \<lparr>lot_id = ''17'', name = ''Lot 17'', total_spaces = 35, permit_type = ''Student'',
               drive_time = 2, walk_time = 4, spaces = (replicate 35 False)[0 := True]\<rparr>"
  by (simp add: toggle_space_def server_init_def PARKING_LOTS_init_def save_data_def)

section \<open>A response that is not 200\<close>

text \<open>
  C4. The fallback and the recovery are \<open>refresh_data_fallback\<close> and
  \<open>refresh_data_mirrors_server\<close> above. The claim fails on a fetch that is answered with a
  status other than 200: for a connected client and a response with status 500,
  \<open>refresh_data\<close> returns \<^verbatim>\<open>None\<close> (not \<^verbatim>\<open>False\<close>), the client stays connected, and
  the counts stay what they were: no synthetic count is drawn. The sibling
  \<open>check_server_connection\<close> disconnects on the same response.
\<close>

theorem refresh_data_status_not_200:
  "refresh_data \<lparr>randint = (\<lambda>a b. a), sample = (\<lambda>n k. [])\<rparr> (Response 500 None)
      (ParkingSystem_init\<lparr>p_server_connected := True\<rparr>)
     = (None, ParkingSystem_init\<lparr>p_server_connected := True\<rparr>)
   \<and> is_server_connected (snd (refresh_data \<lparr>randint = (\<lambda>a b. a), sample = (\<lambda>n k. [])\<rparr>
        (Response 500 None) (ParkingSystem_init\<lparr>p_server_connected := True\<rparr>)))
   \<and> map p_occupied_spaces (p_lots (snd (refresh_data \<lparr>randint = (\<lambda>a b. a), sample = (\<lambda>n k. [])\<rparr>
        (Response 500 None) (ParkingSystem_init\<lparr>p_server_connected := True\<rparr>))))
       = [0, 0, 0, 0]
   \<and> check_server_connection (Response 500 None) (ParkingSystem_init\<lparr>p_server_connected := True\<rparr>)
       = (False, ParkingSystem_init\<lparr>p_server_connected := False\<rparr>)"
  by (simp add: refresh_data_def check_server_connection_def is_server_connected_def
      ParkingSystem_init_def initialize_lots_def ParkingLot_init_def)

section \<open>Status classification\<close>

text \<open>
  C2, as the code has it. \<open>get_status\<close> depends on the occupied count and the capacity
  only. For every capacity \<open>C\<close> with \<open>0 < C \<le> 2573485501354569\<close> and every occupied count
  in \<open>[0, C]\<close>, with \<open>ratio = available / C\<close> as an exact fraction, it returns \<open>AVAILABLE\<close>
  iff \<open>ratio \<ge> 3/10\<close>, \<open>LIMITED\<close> iff \<open>0 < ratio < 3/10\<close> and \<open>FULL\<close> iff \<open>ratio = 0\<close>, and
  it raises nothing. (The bound is \<open>2 ^ 55 div 14\<close>: up to it no fraction below \<open>3/10\<close>
  rounds to the float \<open>0.3\<close>.)
\<close>

theorem get_status_classifies:
  assumes "0 < p_total_spaces lot" and "p_total_spaces lot \<le> 2573485501354569"
    and "0 \<le> p_occupied_spaces lot" and "p_occupied_spaces lot \<le> p_total_spaces lot"
    and "ratio = (of_int (available_spaces lot) / of_int (p_total_spaces lot) :: rat)"
  shows "get_status lot =
           Inr (if 3 / 10 \<le> ratio then AVAILABLE else if 0 < ratio then LIMITED else FULL)
         \<and> (get_status lot = Inr AVAILABLE) = (3 / 10 \<le> ratio)
         \<and> (get_status lot = Inr LIMITED) = (0 < ratio \<and> ratio < 3 / 10)
         \<and> (get_status lot = Inr FULL) = (ratio = 0)
         \<and> get_status (lot\<lparr>p_lot_id := i, p_name := n, p_permit_type := p, p_drive_time := d\<rparr>)
             = get_status lot"
proof -
  define a where "a = available_spaces lot"
  define C where "C = p_total_spaces lot"
  from assms have a: "0 \<le> a" "a \<le> C" and C: "0 < C" "C \<le> 2573485501354569"
    by (simp_all add: a_def C_def available_spaces_def)
  have ratio: "ratio = of_int a / of_int C" by (simp add: assms(5) a_def C_def)
  have avail: "(10808639105689189 * C < a * 2 ^ 55) = (3 / 10 \<le> ratio)"
  proof -
    have "(3 / 10 \<le> ratio) = ((of_int (3 * C) :: rat) \<le> of_int (10 * a))"
      using C(1) by (simp add: ratio pos_le_divide_eq mult.commute)
    also have "\<dots> = (3 * C \<le> 10 * a)" by (simp only: of_int_le_iff)
    also have "\<dots> = (10808639105689189 * C < a * 36028797018963968)"
      using C by arith
    also have "\<dots> = (10808639105689189 * C < a * 2 ^ 55)"
      by simp
    finally show ?thesis by simp
  qed
  have positive: "(0 < round_double (of_int a / of_int C)) = (0 < ratio)"
  proof (cases "a = 0")
    case True
    then show ?thesis by (simp add: ratio round_double_def)
  next
    case False
    with a have a1: "1 \<le> a" by simp
    with C have pos: "0 < of_int a / (of_int C :: rat)" by simp
    have "(of_int C :: rat) \<le> of_int (a * 2 ^ 52)"
      using a1 C by (simp only: of_int_le_iff) simp
    then have "(2::rat) powi (- 52) \<le> of_int a / of_int C"
      using C(1) by (simp add: pos_le_divide_eq)
    then have e: "- 52 \<le> floor_log2 (of_int a / of_int C)"
      by (rule floor_log2_ge [OF pos])
    have "0 < (2::rat) powi (floor_log2 (of_int a / of_int C))" by simp
    also have "\<dots> \<le> round_double (of_int a / of_int C)"
      using e by (intro round_double_ge pos) simp
    finally show ?thesis using pos by (simp add: ratio)
  qed
  have status: "get_status lot =
      Inr (if 3 / 10 \<le> ratio then AVAILABLE else if 0 < ratio then LIMITED else FULL)"
    using get_status_ratio [OF assms(1,3,4)] avail positive
    by (simp flip: a_def C_def)
  have nonneg: "0 \<le> ratio" using a C(1) by (simp add: ratio)
  have pure: "get_status (lot\<lparr>p_lot_id := i, p_name := n, p_permit_type := p, p_drive_time := d\<rparr>)
      = get_status lot"
    by (simp add: get_status_def available_spaces_def)
  from status nonneg pure show ?thesis by auto
qed

theorem get_status_classifies_witness:
  "get_status (update_occupancy (ParkingLot_init ''17'' ''Lot 17'' 35 ''Student'' 2) 10) = Inr AVAILABLE
   \<and> get_status (update_occupancy (ParkingLot_init ''17'' ''Lot 17'' 35 ''Student'' 2) 32) = Inr LIMITED
   \<and> get_status (update_occupancy (ParkingLot_init ''17'' ''Lot 17'' 35 ''Student'' 2) 35) = Inr FULL"
proof -
  let ?lot = "\<lambda>n. update_occupancy (ParkingLot_init ''17'' ''Lot 17'' 35 ''Student'' 2) n"
  have cap: "0 < p_total_spaces (?lot n)" "p_total_spaces (?lot n) \<le> 2573485501354569"
    and occ: "0 \<le> p_occupied_spaces (?lot n)" "p_occupied_spaces (?lot n) \<le> p_total_spaces (?lot n)"
    for n
    by (simp_all add: update_occupancy_def ParkingLot_init_def)
  have r10: "(5 / 7 :: rat) = of_int (available_spaces (?lot 10)) / of_int (p_total_spaces (?lot 10))"
    and r32: "(3 / 35 :: rat) = of_int (available_spaces (?lot 32)) / of_int (p_total_spaces (?lot 32))"
    and r35: "(0 :: rat) = of_int (available_spaces (?lot 35)) / of_int (p_total_spaces (?lot 35))"
    by (simp_all add: update_occupancy_def ParkingLot_init_def available_spaces_def)
  show ?thesis
    using get_status_classifies [OF cap occ r10] get_status_classifies [OF cap occ r32]
      get_status_classifies [OF cap occ r35]
    by simp
qed

text \<open>
  The claim as stated, for every capacity, fails: the quotient is a float. With capacity
  \<open>100000000000000000\<close> and \<open>70000000000000001\<close> occupied spaces the ratio is \<open>0.29999999999999999\<close>,
  below \<open>3/10\<close>, and the nearest float is the float \<open>0.3\<close> itself: the lot is classified
  \<open>AVAILABLE\<close>.
\<close>

theorem get_status_huge_capacity_counterexample:
  "get_status (update_occupancy
      (ParkingLot_init ''17'' ''Lot 17'' 100000000000000000 ''Student'' 2) 70000000000000001)
     = Inr AVAILABLE
   \<and> available_spaces (update_occupancy
      (ParkingLot_init ''17'' ''Lot 17'' 100000000000000000 ''Student'' 2) 70000000000000001)
     = 29999999999999999
   \<and> (29999999999999999 / 100000000000000000 :: rat) < 3 / 10"
proof -
  let ?lot = "update_occupancy
      (ParkingLot_init ''17'' ''Lot 17'' 100000000000000000 ''Student'' 2) 70000000000000001"
  have "0 < p_total_spaces ?lot" "0 \<le> p_occupied_spaces ?lot"
      "p_occupied_spaces ?lot \<le> p_total_spaces ?lot"
    by (simp_all add: update_occupancy_def ParkingLot_init_def)
  from get_status_ratio [OF this] show ?thesis
    by (simp add: update_occupancy_def ParkingLot_init_def available_spaces_def)
qed

end
